theory Spec2Isabelle
  imports Main
begin

section \<open>JavaScript primitives the extension relies on\<close>

text \<open>
  Strings are modelled as lists of 8-bit characters and are meant to hold ASCII text (the
  output of \<^verbatim>\<open>sysctl\<close>, \<^verbatim>\<open>m1ddc\<close> and \<^verbatim>\<open>ControlMyMonitor.exe\<close>, paths, preference
  values): white space is the ASCII white space and only the letters A to Z change under
  \<^verbatim>\<open>toLowerCase\<close>. Numbers are the integers obtained by \<^verbatim>\<open>parseInt\<close>, \<^verbatim>\<open>NaN\<close> is
  \<open>None\<close>; the model is exact for the magnitudes below \<open>2\<^sup>5\<^sup>3\<close> that a JavaScript number
  holds exactly and prints in plain decimal.
\<close>

definition isDigit :: \<open>char \<Rightarrow> bool\<close> where
  \<open>isDigit c = (48 \<le> (of_char c :: nat) \<and> (of_char c :: nat) \<le> 57)\<close>

definition isWhiteSpace :: \<open>char \<Rightarrow> bool\<close> where
  \<open>isWhiteSpace c =
     (c = CHR '' '' \<or> c = CHR 0x09 \<or> c = CHR 0x0A \<or> c = CHR 0x0B \<or> c = CHR 0x0C \<or> c = CHR 0x0D)\<close>

definition lowerChar :: \<open>char \<Rightarrow> char\<close> where
  \<open>lowerChar c =
     (case map_of (zip ''ABCDEFGHIJKLMNOPQRSTUVWXYZ'' ''abcdefghijklmnopqrstuvwxyz'') c of
        Some l \<Rightarrow> l
      | None \<Rightarrow> c)\<close>

definition toLowerCase :: \<open>string \<Rightarrow> string\<close> where
  \<open>toLowerCase s = map lowerChar s\<close>

definition trim :: \<open>string \<Rightarrow> string\<close> where
  \<open>trim s = rev (dropWhile isWhiteSpace (rev (dropWhile isWhiteSpace s)))\<close>

fun startsWith :: \<open>string \<Rightarrow> string \<Rightarrow> bool\<close> where
  \<open>startsWith s [] = True\<close>
| \<open>startsWith [] (c # cs) = False\<close>
| \<open>startsWith (x # xs) (c # cs) = (x = c \<and> startsWith xs cs)\<close>

text \<open>\<^verbatim>\<open>s.includes(sub)\<close>: \<open>sub\<close> occurs in \<open>s\<close> as a contiguous substring.\<close>

fun includesStr :: \<open>string \<Rightarrow> string \<Rightarrow> bool\<close> where
  \<open>includesStr [] sub = (sub = [])\<close>
| \<open>includesStr (x # xs) sub = (startsWith (x # xs) sub \<or> includesStr xs sub)\<close>

definition digitsValue :: \<open>string \<Rightarrow> nat\<close> where
  \<open>digitsValue ds = foldl (\<lambda>acc c. 10 * acc + (of_char c - 48)) 0 ds\<close>

text \<open>
  \<^verbatim>\<open>parseInt(s, 10)\<close>: leading white space is skipped, one sign is accepted, then the
  longest run of decimal digits is read; no digit at all gives \<^verbatim>\<open>NaN\<close>.
\<close>

definition parseInt :: \<open>string \<Rightarrow> int option\<close> where
  \<open>parseInt s =
     (let t = dropWhile isWhiteSpace s;
          neg = (t \<noteq> [] \<and> hd t = CHR ''-'');
          u = (if t \<noteq> [] \<and> (hd t = CHR ''-'' \<or> hd t = CHR ''+'') then tl t else t);
          ds = takeWhile isDigit u
      in if ds = [] then None
         else Some (if neg then - int (digitsValue ds) else int (digitsValue ds)))\<close>

definition isNaN :: \<open>int option \<Rightarrow> bool\<close> where
  \<open>isNaN n = (n = None)\<close>

text \<open>
  \<^verbatim>\<open>brandString.match(/Apple M(\d+)/i)\<close>: the leftmost position where the text reads
  \<^verbatim>\<open>apple m\<close> in any letter case followed by at least one digit; the result is capture
  group 1, the longest run of digits there. \<open>None\<close> is the \<^verbatim>\<open>null\<close> of no match.
\<close>

fun matchAppleM :: \<open>string \<Rightarrow> string option\<close> where
  \<open>matchAppleM [] = None\<close>
| \<open>matchAppleM (c # cs) =
     (if startsWith (toLowerCase (c # cs)) ''apple m'' \<and> takeWhile isDigit (drop 7 (c # cs)) \<noteq> []
      then Some (takeWhile isDigit (drop 7 (c # cs)))
      else matchAppleM cs)\<close>

text \<open>
  The decimal rendering of a number in a template literal: \<^verbatim>\<open>`${n}`\<close>.
\<close>

definition digitChar :: \<open>nat \<Rightarrow> char\<close> where
  \<open>digitChar d = ''0123456789'' ! d\<close>

function showNat :: \<open>nat \<Rightarrow> string\<close> where
  \<open>showNat n = (if n < 10 then [digitChar n] else showNat (n div 10) @ [digitChar (n mod 10)])\<close>
  by pat_completeness auto
termination
  by (relation \<open>measure id\<close>) auto

declare showNat.simps [simp del]

definition showNumber :: \<open>int option \<Rightarrow> string\<close> where
  \<open>showNumber n =
     (case n of
        None \<Rightarrow> ''NaN''
      | Some i \<Rightarrow> if i < 0 then ''-'' @ showNat (nat (- i)) else showNat (nat i))\<close>

text \<open>\<^verbatim>\<open>lines.join("\n")\<close>.\<close>

fun joinLines :: \<open>string list \<Rightarrow> string\<close> where
  \<open>joinLines [] = []\<close>
| \<open>joinLines [l] = l\<close>
| \<open>joinLines (l # m # ls) = l @ ''\<newline>'' @ joinLines (m # ls)\<close>

text \<open>
  \<^verbatim>\<open>xs.forEach(f)\<close> calls \<open>f\<close> on every element, discards what each call returns and
  itself returns \<^verbatim>\<open>undefined\<close>. The callbacks in this program have no effect of their
  own, so nothing of the loop is observable.
\<close>

definition forEach :: \<open>'a list \<Rightarrow> ('a \<Rightarrow> 'b) \<Rightarrow> unit\<close> where
  \<open>forEach xs f = ()\<close>

section \<open>The host: operating system, processes, file system\<close>

text \<open>
  What a child process does: it exits with a status, its standard output and the text of
  the error \<^verbatim>\<open>execSync\<close> would raise for it, or it never exits normally (it cannot be
  started, or it is killed at the timeout).
\<close>

datatype proc_end =
    Exited (exit_status: int) (proc_stdout: string) (proc_errtext: string)
  | Threw (thrown_errtext: string)

text \<open>
  \<^verbatim>\<open>execSync\<close> of Node.js returns the standard output when the process exits with status 0
  and throws otherwise; \<open>Inl\<close> carries the \<^verbatim>\<open>message\<close> of the thrown error.
\<close>

definition execSync :: \<open>proc_end \<Rightarrow> string + string\<close> where
  \<open>execSync p =
     (case p of
        Exited st out err \<Rightarrow> if st = 0 then Inr out else Inl err
      | Threw err \<Rightarrow> Inl err)\<close>

text \<open>The process ran to its end and exited with status 0.\<close>

definition exitedZero :: \<open>proc_end \<Rightarrow> bool\<close> where
  \<open>exitedZero p = (case p of Exited st out err \<Rightarrow> st = 0 | Threw e \<Rightarrow> False)\<close>

datatype jsval = JStr string | JBool bool

type_synonym jsobj = \<open>string \<rightharpoonup> jsval\<close>

record world =
  os_platform :: string
  run :: \<open>string \<Rightarrow> proc_end\<close>
  existsSync :: \<open>string \<Rightarrow> bool\<close>
  getPreferenceValues :: \<open>string \<rightharpoonup> string\<close>

text \<open>
  Values read from objects: a missing property (\<^verbatim>\<open>undefined\<close>) is \<open>None\<close>. \<open>toString\<close>
  is the conversion a template literal and \<^verbatim>\<open>parseInt\<close> apply to their argument, \<open>truthy\<close>
  the test of \<^verbatim>\<open>!x\<close> and \<^verbatim>\<open>x || y\<close>.
\<close>

definition toStringS :: \<open>string option \<Rightarrow> string\<close> where
  \<open>toStringS v = (case v of None \<Rightarrow> ''undefined'' | Some s \<Rightarrow> s)\<close>

definition toString :: \<open>jsval option \<Rightarrow> string\<close> where
  \<open>toString v =
     (case v of
        None \<Rightarrow> ''undefined''
      | Some (JStr s) \<Rightarrow> s
      | Some (JBool b) \<Rightarrow> if b then ''true'' else ''false'')\<close>

definition truthy :: \<open>jsval option \<Rightarrow> bool\<close> where
  \<open>truthy v =
     (case v of
        None \<Rightarrow> False
      | Some (JStr s) \<Rightarrow> s \<noteq> []
      | Some (JBool b) \<Rightarrow> b)\<close>

section \<open>platform.ts: platform classification\<close>

datatype SupportedPlatform = Darwin | Win32 | Unsupported

datatype AppleSiliconGen = M1 | M2_or_later | Intel | Unknown

record PlatformInfo =
  os :: SupportedPlatform
  isAppleSilicon :: bool
  appleChipGen :: AppleSiliconGen
  m1ddcSupportsBuiltinHdmi :: bool

text \<open>
  The body of the \<^verbatim>\<open>try\<close> block of \<^verbatim>\<open>detectAppleSiliconGeneration\<close>, for the command line
  \<open>cmd\<close> that queries the CPU brand string; \<open>Inl\<close> is an exception leaving the block.
  \<^verbatim>\<open>generation >= 2\<close> is false when \<^verbatim>\<open>generation\<close> is \<^verbatim>\<open>NaN\<close>.
\<close>

definition detectAppleSiliconGeneration_try :: \<open>world \<Rightarrow> string \<Rightarrow> string + AppleSiliconGen\<close> where
  \<open>detectAppleSiliconGeneration_try w cmd =
     (case execSync (run w cmd) of
        Inl err \<Rightarrow> Inl err
      | Inr out \<Rightarrow>
          (let brandString = trim out in
           if includesStr (toLowerCase brandString) ''intel'' then Inr Intel
           else case matchAppleM brandString of
             Some g \<Rightarrow>
               (let generation = parseInt g in
                Inr (if (case generation of None \<Rightarrow> False | Some n \<Rightarrow> n \<ge> 2)
                     then M2_or_later else M1))
           | None \<Rightarrow>
               if includesStr (toLowerCase brandString) ''apple'' then Inr M2_or_later
               else Inr Unknown))\<close>

definition sysctl_command :: string where
  \<open>sysctl_command = ''sysctl -n machdep.cpu.brand_string''\<close>

definition detectAppleSiliconGeneration :: \<open>world \<Rightarrow> AppleSiliconGen\<close> where
  \<open>detectAppleSiliconGeneration w =
     (case detectAppleSiliconGeneration_try w sysctl_command of
        Inr gen \<Rightarrow> gen
      | Inl err \<Rightarrow> Unknown)\<close>

definition detectPlatform :: \<open>world \<Rightarrow> PlatformInfo\<close> where
  \<open>detectPlatform w =
     (if os_platform w = ''win32'' then
        \<lparr>os = Win32, isAppleSilicon = False, appleChipGen = Unknown,
         m1ddcSupportsBuiltinHdmi = False\<rparr>
      else if os_platform w = ''darwin'' then
        (let chipGen = detectAppleSiliconGeneration w in
         \<lparr>os = Darwin, isAppleSilicon = (chipGen \<noteq> Intel), appleChipGen = chipGen,
          m1ddcSupportsBuiltinHdmi = (chipGen = M2_or_later)\<rparr>)
      else
        \<lparr>os = Unsupported, isAppleSilicon = False, appleChipGen = Unknown,
         m1ddcSupportsBuiltinHdmi = False\<rparr>)\<close>


text \<open>\<^verbatim>\<open>which m1ddc\<close> exits with status 0 exactly when the tool is on the search path.\<close>

definition isM1ddcInstalled :: \<open>world \<Rightarrow> bool\<close> where
  \<open>isM1ddcInstalled w =
     (case execSync (run w ''which m1ddc'') of
        Inr out \<Rightarrow> True
      | Inl err \<Rightarrow> False)\<close>

definition isControlMyMonitorInstalled :: \<open>world \<Rightarrow> string \<Rightarrow> bool\<close> where
  \<open>isControlMyMonitorInstalled w path =
     (if path = [] \<or> trim path = [] then False else existsSync w path)\<close>

text \<open>
  \<^verbatim>\<open>validatePrerequisites\<close> of platform.ts: \<open>Some\<close> is the error message, \<open>None\<close> is
  \<^verbatim>\<open>null\<close> (ready). The \<^verbatim>\<open>console.warn\<close> on an M1 does not change what is returned.
\<close>

definition validatePrerequisites :: \<open>world \<Rightarrow> string option \<Rightarrow> string option\<close> where
  \<open>validatePrerequisites w controlMyMonitorPath =
     (let info = detectPlatform w in
      if os info = Unsupported then
        Some ''This extension only supports macOS and Windows.''
      else if os info = Darwin then
        (if appleChipGen info = Intel then
           Some ''m1ddc requires Apple Silicon (M1 or later). Intel Macs are not supported.''
         else if \<not> isM1ddcInstalled w then
           Some ''m1ddc is not installed. Install via: brew install m1ddc''
         else None)
      else if os info = Win32 then
        (case controlMyMonitorPath of
           None \<Rightarrow>
             Some (''ControlMyMonitor path not configured. '' @
                   ''Download from https://www.nirsoft.net/utils/controlmymonitor.zip '' @
                   ''and set the path in extension preferences.'')
         | Some path \<Rightarrow>
             if path = [] \<or> trim path = [] then
               Some (''ControlMyMonitor path not configured. '' @
                     ''Download from https://www.nirsoft.net/utils/controlmymonitor.zip '' @
                     ''and set the path in extension preferences.'')
             else if \<not> isControlMyMonitorInstalled w path then
               Some (''ControlMyMonitor not found at: '' @ path)
             else None)
      else Some ''Unknown platform error.'')\<close>

subsection \<open>The second copy in platform.ts (lines 172 to 326)\<close>

text \<open>
  platform.ts holds the module twice. The second copy adds the field \<^verbatim>\<open>isWin32\<close>, calls
  \<^verbatim>\<open>sysctl\<close> by its full path and replaces \<^verbatim>\<open>validatePrerequisites\<close> by
  \<^verbatim>\<open>validateHostPlatform\<close>; its definitions carry the suffix 2 where the name is taken.
\<close>

record PlatformInfo2 = PlatformInfo +
  isWin32 :: bool

definition sysctl_command2 :: string where
  \<open>sysctl_command2 = ''"/usr/sbin/sysctl" -n machdep.cpu.brand_string''\<close>

definition detectAppleSiliconGeneration2 :: \<open>world \<Rightarrow> AppleSiliconGen\<close> where
  \<open>detectAppleSiliconGeneration2 w =
     (case detectAppleSiliconGeneration_try w sysctl_command2 of
        Inr gen \<Rightarrow> gen
      | Inl err \<Rightarrow> Unknown)\<close>

definition detectPlatform2 :: \<open>world \<Rightarrow> PlatformInfo2\<close> where
  \<open>detectPlatform2 w =
     (if os_platform w = ''win32'' then
        \<lparr>os = Win32, isAppleSilicon = False, appleChipGen = Unknown,
         m1ddcSupportsBuiltinHdmi = False, isWin32 = True\<rparr>
      else if os_platform w = ''darwin'' then
        (let chipGen = detectAppleSiliconGeneration2 w in
         \<lparr>os = Darwin, isAppleSilicon = (chipGen \<noteq> Intel), appleChipGen = chipGen,
          m1ddcSupportsBuiltinHdmi = (chipGen = M2_or_later), isWin32 = False\<rparr>)
      else
        \<lparr>os = Unsupported, isAppleSilicon = False, appleChipGen = Unknown,
         m1ddcSupportsBuiltinHdmi = False, isWin32 = False\<rparr>)\<close>

text \<open>
  Objects that are merged by spread syntax are maps from property names to values:
  \<^verbatim>\<open>{...a, ...b}\<close> is \<open>a ++ b\<close>, where a property of \<open>b\<close> replaces the same property of \<open>a\<close>.
\<close>

definition osString :: \<open>SupportedPlatform \<Rightarrow> string\<close> where
  \<open>osString p = (case p of Darwin \<Rightarrow> ''darwin'' | Win32 \<Rightarrow> ''win32'' | Unsupported \<Rightarrow> ''unsupported'')\<close>

definition genString :: \<open>AppleSiliconGen \<Rightarrow> string\<close> where
  \<open>genString g =
     (case g of M1 \<Rightarrow> ''m1'' | M2_or_later \<Rightarrow> ''m2_or_later'' | Intel \<Rightarrow> ''intel'' | Unknown \<Rightarrow> ''unknown'')\<close>

definition objPlatformInfo :: \<open>PlatformInfo2 \<Rightarrow> jsobj\<close> where
  \<open>objPlatformInfo info =
     [''os'' \<mapsto> JStr (osString (os info)),
      ''isWin32'' \<mapsto> JBool (isWin32 info),
      ''appleChipGen'' \<mapsto> JStr (genString (appleChipGen info)),
      ''isAppleSilicon'' \<mapsto> JBool (isAppleSilicon info),
      ''m1ddcSupportsBuiltinHdmi'' \<mapsto> JBool (m1ddcSupportsBuiltinHdmi info)]\<close>

text \<open>toast.ts (stored at the end of extension.ts): a \<^verbatim>\<open>ToastResult\<close> and the generic success.\<close>

definition ToastResult :: \<open>string \<Rightarrow> string \<Rightarrow> string \<Rightarrow> jsobj\<close> where
  \<open>ToastResult st ti msg = [''status'' \<mapsto> JStr st, ''title'' \<mapsto> JStr ti, ''message'' \<mapsto> JStr msg]\<close>

definition GenericSuccess :: jsobj where
  \<open>GenericSuccess = ToastResult ''success'' '''' ''''\<close>

definition validateHostPlatform :: \<open>world \<Rightarrow> jsobj\<close> where
  \<open>validateHostPlatform w =
     (let info = detectPlatform2 w in
      if os info = Unsupported then
        objPlatformInfo info ++
          ToastResult ''failure'' ''This extension only supports macOS and Windows.'' ''''
      else if os info = Darwin then
        (if appleChipGen info = Intel then
           objPlatformInfo info ++
             ToastResult ''failure'' ''m1ddc requires Apple Silicon (M1 or later)''
               ''M1 is partially supported, Intel Macs are not supported.''
         else if appleChipGen info = M1 then
           objPlatformInfo info ++
             ToastResult ''soft-fail'' ''m1ddc does not support M1's built-in HDMI port!''
               ''External displays via USB-C/Thunderbolt adapters should work.''
         else objPlatformInfo info ++ GenericSuccess)
      else if os info = Win32 then objPlatformInfo info ++ GenericSuccess
      else objPlatformInfo info ++ ToastResult ''failure'' ''Unknown platform error.'' '''')\<close>

section \<open>extension.ts: preference validation\<close>

definition objPreferences :: \<open>(string \<rightharpoonup> string) \<Rightarrow> jsobj\<close> where
  \<open>objPreferences prefs = (\<lambda>k. map_option JStr (prefs k))\<close>

text \<open>
  The numeric check sits in a \<^verbatim>\<open>forEach\<close> callback: its \<^verbatim>\<open>return\<close> leaves the callback
  (\<open>Some\<close> of the failure object, \<open>None\<close> when the callback runs to its end), not
  \<^verbatim>\<open>validatePreferences\<close>.
\<close>

definition validatePreferences :: \<open>world \<Rightarrow> jsobj \<Rightarrow> jsobj\<close> where
  \<open>validatePreferences w platform =
     (let prefs = getPreferenceValues w;
          u = forEach [(''HDMI port'', prefs ''hdmiPortValue''), (''DisplayPort'', prefs ''displayPortValue'')]
                (\<lambda>(input, val).
                   let inputValue = parseInt (toStringS val) in
                   if isNaN inputValue then
                     Some (objPreferences prefs ++
                           ToastResult ''failure'' (''Invalid '' @ input @ '' value'')
                             (''"'' @ showNumber inputValue @ ''" is not a valid number''))
                   else None);
          runnableName = (if platform ''os'' = Some (JStr ''darwin'') then ''m1ddc'' else ''ControlMyMonitor.exe'');
          runnablePath = (if platform ''os'' = Some (JStr ''darwin'') then prefs ''m1ddcPath''
                          else prefs ''controlMyMonitorPath'');
          errorMessage =
            (if platform ''os'' = Some (JStr ''darwin'') then
               ''Path to '' @ runnableName @ '' is empty/unset. '' @
               ''Install via: brew install m1ddc and set the path in extension preferences.''
             else
               ''Path to '' @ runnableName @ '' is empty/unset. '' @
               ''Download from https://www.nirsoft.net/utils/controlmymonitor.zip and set the path in extension preferences.'')
      in case runnablePath of
           None \<Rightarrow>
             objPreferences prefs ++
               ToastResult ''failure'' (runnableName @ '' path not configured'') errorMessage
         | Some path \<Rightarrow>
             if path = [] \<or> trim path = [] then
               objPreferences prefs ++
                 ToastResult ''failure'' (runnableName @ '' path not configured'') errorMessage
             else if \<not> existsSync w path then
               objPreferences prefs ++
                 ToastResult ''failure'' (runnableName @ '' not found'') (''Path: '' @ path)
             else objPreferences prefs ++ GenericSuccess)\<close>

section \<open>common.ts: the combined validation\<close>

definition validatePrerequisites_common :: \<open>world \<Rightarrow> jsobj\<close> where
  \<open>validatePrerequisites_common w =
     (let platformValidation = validateHostPlatform w in
      if platformValidation ''status'' \<noteq> Some (JStr ''failure'') then
        platformValidation ++ validatePreferences w platformValidation
      else platformValidation)\<close>

section \<open>ddc.ts: switching the input\<close>

text \<open>
  Every function that starts the DDC tool returns, next to its result, the command lines
  it handed to \<^verbatim>\<open>execSync\<close>, in order. The options of those calls (a timeout of 10
  seconds, and \<^verbatim>\<open>cmd.exe\<close> as the shell on Windows) are fixed and are not modelled.
\<close>

definition VCP_INPUT_SOURCE :: \<open>int option\<close> where
  \<open>VCP_INPUT_SOURCE = Some 60\<close>

record SwitchResult =
  success :: bool
  message :: string
  rawOutput :: \<open>string option\<close>

record InputDiscovery =
  success_d :: bool
  currentValue :: \<open>int option\<close>
  availableInfo :: \<open>string option\<close>
  error_d :: \<open>string option\<close>

definition switchInputMacOS :: \<open>world \<Rightarrow> int option \<Rightarrow> SwitchResult \<times> string list\<close> where
  \<open>switchInputMacOS w inputValue =
     (let command = ''m1ddc set input '' @ showNumber inputValue in
      case execSync (run w command) of
        Inr output \<Rightarrow>
          (\<lparr>success = True, message = ''Switched to input '' @ showNumber inputValue,
            rawOutput = Some (trim output)\<rparr>, [command])
      | Inl errorMessage \<Rightarrow>
          (if includesStr errorMessage ''No displays found'' then
             \<lparr>success = False,
              message = ''No DDC/CI compatible displays found. Is the monitor connected and awake?'',
              rawOutput = None\<rparr>
           else if includesStr errorMessage ''DDC communication failed'' then
             \<lparr>success = False,
              message = ''DDC/CI communication failed. Try a different cable or check monitor DDC settings.'',
              rawOutput = None\<rparr>
           else
             \<lparr>success = False, message = ''m1ddc error: '' @ errorMessage, rawOutput = None\<rparr>,
           [command]))\<close>

definition switchInputWindows :: \<open>world \<Rightarrow> int option \<Rightarrow> string \<Rightarrow> string \<Rightarrow> SwitchResult \<times> string list\<close> where
  \<open>switchInputWindows w inputValue exePath monitorId =
     (let quotedPath = ''"'' @ exePath @ ''"'';
          command = quotedPath @ '' /SetValue "'' @ monitorId @ ''" '' @ showNumber VCP_INPUT_SOURCE @
                    '' '' @ showNumber inputValue
      in case execSync (run w command) of
        Inr output \<Rightarrow>
          (\<lparr>success = True, message = ''Switched to input '' @ showNumber inputValue,
            rawOutput = Some (trim output)\<rparr>, [command])
      | Inl errorMessage \<Rightarrow>
          (\<lparr>success = False, message = ''ControlMyMonitor error: '' @ errorMessage,
            rawOutput = None\<rparr>, [command]))\<close>

text \<open>
  \<^verbatim>\<open>controlMyMonitorPath!\<close> in the Windows branch: \<^verbatim>\<open>validatePrerequisites\<close> has returned
  \<^verbatim>\<open>null\<close> there, so the path is a string; \<open>toStringS\<close> is what the template literal
  would make of it otherwise.
\<close>

definition switchInput :: \<open>world \<Rightarrow> int option \<Rightarrow> string option \<Rightarrow> string \<Rightarrow> SwitchResult \<times> string list\<close> where
  \<open>switchInput w inputValue controlMyMonitorPath monitorId =
     (case validatePrerequisites w controlMyMonitorPath of
        Some prereqError \<Rightarrow> (\<lparr>success = False, message = prereqError, rawOutput = None\<rparr>, [])
      | None \<Rightarrow>
          (let platform = detectPlatform w in
           if os platform = Darwin then switchInputMacOS w inputValue
           else if os platform = Win32 then
             switchInputWindows w inputValue (toStringS controlMyMonitorPath) monitorId
           else (\<lparr>success = False, message = ''Unsupported platform.'', rawOutput = None\<rparr>, [])))\<close>

subsection \<open>Discovery\<close>

definition discoverInputsMacOS :: \<open>world \<Rightarrow> InputDiscovery \<times> string list\<close> where
  \<open>discoverInputsMacOS w =
     (case execSync (run w ''m1ddc get input'') of
        Inl errorMessage \<Rightarrow>
          (\<lparr>success_d = False, currentValue = None, availableInfo = None,
            error_d = Some (''m1ddc error: '' @ errorMessage)\<rparr>, [''m1ddc get input''])
      | Inr currentInput \<Rightarrow>
          (let currentValue = parseInt (trim currentInput);
               displayInfo =
                 (case execSync (run w ''m1ddc display list'') of
                    Inr out \<Rightarrow> out
                  | Inl err \<Rightarrow> ''(Could not retrieve display list)'');
               info = joinLines
                 [''=== macOS DDC/CI Discovery (m1ddc) ==='',
                  [],
                  ''Current Input Value (VCP 0x60): '' @ showNumber currentValue,
                  [],
                  ''Common Input Values:'',
                  ''  15 (0x0F) = DisplayPort'',
                  ''  17 (0x11) = HDMI-1'',
                  ''  18 (0x12) = HDMI-2'',
                  ''  (Values vary by monitor model)'',
                  [],
                  ''Detected Displays:'',
                  displayInfo,
                  [],
                  ''Tip: Switch to each input manually and run this command to discover the value:'',
                  ''  m1ddc get input'']
           in (\<lparr>success_d = True,
                currentValue = (if isNaN currentValue then None else currentValue),
                availableInfo = Some info, error_d = None\<rparr>,
               [''m1ddc get input'', ''m1ddc display list''])))\<close>

definition discoverInputsWindows :: \<open>world \<Rightarrow> string \<Rightarrow> string \<Rightarrow> InputDiscovery \<times> string list\<close> where
  \<open>discoverInputsWindows w exePath monitorId =
     (let quotedPath = ''"'' @ exePath @ ''"'';
          smonitors = quotedPath @ '' /smonitors'';
          getValue = quotedPath @ '' /GetValue "'' @ monitorId @ ''" '' @ showNumber VCP_INPUT_SOURCE
      in case execSync (run w smonitors) of
        Inl errorMessage \<Rightarrow>
          (\<lparr>success_d = False, currentValue = None, availableInfo = None,
            error_d = Some (''ControlMyMonitor error: '' @ errorMessage)\<rparr>, [smonitors])
      | Inr monitorInfo \<Rightarrow>
          (let currentValue =
                 (case execSync (run w getValue) of
                    Inr inputInfo \<Rightarrow>
                      (let v = parseInt (trim inputInfo) in if isNaN v then None else v)
                  | Inl err \<Rightarrow> None);
               info = joinLines
                 [''=== Windows DDC/CI Discovery (ControlMyMonitor) ==='',
                  [],
                  (if currentValue \<noteq> None
                   then ''Current Input Value (VCP 0x60): '' @ showNumber currentValue
                   else ''Current Input Value: (Could not read)''),
                  [],
                  ''Common Input Values:'',
                  ''  15 (0x0F) = DisplayPort'',
                  ''  17 (0x11) = HDMI-1'',
                  ''  18 (0x12) = HDMI-2'',
                  ''  (Values vary by monitor model)'',
                  [],
                  ''Detected Monitors:'',
                  monitorInfo,
                  [],
                  ''Tip: Use the ControlMyMonitor GUI to explore all VCP values.'']
           in (\<lparr>success_d = True, currentValue = currentValue, availableInfo = Some info,
                error_d = None\<rparr>,
               [smonitors, getValue])))\<close>

definition discoverInputs :: \<open>world \<Rightarrow> string option \<Rightarrow> string \<Rightarrow> InputDiscovery \<times> string list\<close> where
  \<open>discoverInputs w controlMyMonitorPath monitorId =
     (case validatePrerequisites w controlMyMonitorPath of
        Some prereqError \<Rightarrow>
          (\<lparr>success_d = False, currentValue = None, availableInfo = None,
            error_d = Some prereqError\<rparr>, [])
      | None \<Rightarrow>
          (let platform = detectPlatform w in
           if os platform = Darwin then discoverInputsMacOS w
           else if os platform = Win32 then
             discoverInputsWindows w (toStringS controlMyMonitorPath) monitorId
           else (\<lparr>success_d = False, currentValue = None, availableInfo = None,
                  error_d = Some ''Unsupported platform.''\<rparr>, [])))\<close>

subsection \<open>The second copy of the module (stored after switch-to-hdmi.tsx, lines 54 to 333)\<close>

text \<open>
  The revised dispatcher takes the platform and the tool's path from its caller and
  returns a \<^verbatim>\<open>ToastResult\<close>. Its constant \<^verbatim>\<open>VCP_INPUT_SOURCE\<close> is 60 as well.
\<close>

definition switchInputMacToWindows :: \<open>world \<Rightarrow> int option \<Rightarrow> string \<Rightarrow> SwitchResult \<times> string list\<close> where
  \<open>switchInputMacToWindows w inputValue exePath =
     (let quotedPath = ''"'' @ exePath @ ''"'';
          command = quotedPath @ '' set input '' @ showNumber inputValue
      in case execSync (run w command) of
        Inr output \<Rightarrow>
          (\<lparr>success = True, message = ''Switched to input '' @ showNumber inputValue,
            rawOutput = Some (trim output)\<rparr>, [command])
      | Inl errorMessage \<Rightarrow>
          (if includesStr errorMessage ''No displays found'' then
             \<lparr>success = False,
              message = ''No DDC/CI compatible displays found. Is the monitor connected and awake?'',
              rawOutput = None\<rparr>
           else if includesStr errorMessage ''DDC communication failed'' then
             \<lparr>success = False,
              message = ''DDC/CI communication failed. Try a different cable or check monitor DDC settings.'',
              rawOutput = None\<rparr>
           else
             \<lparr>success = False, message = ''m1ddc error: '' @ errorMessage, rawOutput = None\<rparr>,
           [command]))\<close>

definition switchInputWindowsToMac :: \<open>world \<Rightarrow> int option \<Rightarrow> string \<Rightarrow> string \<Rightarrow> SwitchResult \<times> string list\<close> where
  \<open>switchInputWindowsToMac w inputValue monitorId exePath =
     (let quotedPath = ''"'' @ exePath @ ''"'';
          command = quotedPath @ '' /SetValue "'' @ monitorId @ ''" '' @ showNumber VCP_INPUT_SOURCE @
                    '' '' @ showNumber inputValue
      in case execSync (run w command) of
        Inr output \<Rightarrow>
          (\<lparr>success = True, message = ''Switched to input '' @ showNumber inputValue,
            rawOutput = Some (trim output)\<rparr>, [command])
      | Inl errorMessage \<Rightarrow>
          (\<lparr>success = False, message = ''ControlMyMonitor error: '' @ errorMessage,
            rawOutput = None\<rparr>, [command]))\<close>

text \<open>\<^verbatim>\<open>switchResult.rawOutput || ""\<close>: an absent or empty output is the empty string.\<close>

definition switchInput2 :: \<open>world \<Rightarrow> jsval option \<Rightarrow> int option \<Rightarrow> string \<Rightarrow> string \<Rightarrow> jsobj \<times> string list\<close> where
  \<open>switchInput2 w platformOs inputValue monitorId exePath =
     (let (switchResult, cmds) =
            (if platformOs = Some (JStr ''darwin'')
             then switchInputMacToWindows w inputValue exePath
             else switchInputWindowsToMac w inputValue monitorId exePath)
      in if \<not> success switchResult then
           (ToastResult ''failure''
              (''Failed to switch to input '' @ showNumber inputValue @ '' via '' @ exePath)
              (message switchResult @ '' :: '' @
                 (case rawOutput switchResult of None \<Rightarrow> [] | Some out \<Rightarrow> out)),
            cmds)
         else (GenericSuccess, cmds))\<close>

section \<open>The commands\<close>

text \<open>
  A command's run is the list of what it does to the host, in order: the toasts and HUD it
  shows, closing the window, the 3 second pause, and every process started by the
  dispatcher.
\<close>

datatype toast_style = Failure | Animated | Success

datatype event =
    ShowToast toast_style string string
  | UpdateToast toast_style string string
  | ShowHUD string
  | CloseMainWindow
  | SetTimeout nat
  | ExecSync string

text \<open>The check mark U+2713 that opens the success messages, in UTF-8.\<close>

definition checkMark :: string where
  \<open>checkMark = [CHR 0xE2, CHR 0x9C, CHR 0x93]\<close>

text \<open>\<^verbatim>\<open>x || d\<close> for a string \<open>d\<close>, converted to a string where it is used.\<close>

definition orElse :: \<open>jsval option \<Rightarrow> string \<Rightarrow> string\<close> where
  \<open>orElse v d = (if truthy v then toString v else d)\<close>

text \<open>
  toggle-input-source.tsx. \<open>Command_toggle_from\<close> is the body of \<^verbatim>\<open>Command\<close> after its first
  line, for the value \<^verbatim>\<open>completeValidation\<close> that line computes.
\<close>

definition Command_toggle_from :: \<open>world \<Rightarrow> jsobj \<Rightarrow> event list\<close> where
  \<open>Command_toggle_from w completeValidation =
     (if completeValidation ''status'' = Some (JStr ''failure'') then
        [ShowToast Failure (toString (completeValidation ''title''))
           (toString (completeValidation ''message''))]
      else
        (let resolvedExePath =
               (if completeValidation ''os'' = Some (JStr ''darwin'')
                then completeValidation ''m1ddcPath''
                else completeValidation ''controlMyMonitorPath'');
             resolvedInput =
               (if completeValidation ''os'' = Some (JStr ''darwin'')
                then parseInt (toString (completeValidation ''displayPortValue''))
                else parseInt (toString (completeValidation ''hdmiPortValue'')));
             (result, cmds) =
               switchInput2 w (completeValidation ''os'') resolvedInput
                 (orElse (completeValidation ''monitorId'') ''Primary'')
                 (toString resolvedExePath)
         in [CloseMainWindow,
             ShowToast Animated ''Switching!''
               (''To input '' @ showNumber resolvedInput @ '' via '' @ toString resolvedExePath),
             SetTimeout 3000] @
            map ExecSync cmds @
            [if result ''status'' = Some (JStr ''success'') then
               UpdateToast Success
                 (checkMark @ '' Switched to input ('' @ showNumber resolvedInput @ '')'') []
             else
               UpdateToast Failure (toString (result ''title'')) (toString (result ''message''))]))\<close>

definition Command_toggle_input_source :: \<open>world \<Rightarrow> event list\<close> where
  \<open>Command_toggle_input_source w = Command_toggle_from w (validatePrerequisites_common w)\<close>

text \<open>
  switch-to-hdmi.tsx. \<^verbatim>\<open>prefs.controlMyMonitorPath || undefined\<close> turns an empty path into
  \<^verbatim>\<open>undefined\<close>.
\<close>

definition Command_switch_to_hdmi :: \<open>world \<Rightarrow> event list\<close> where
  \<open>Command_switch_to_hdmi w =
     (let prefs = getPreferenceValues w;
          inputValue = parseInt (toStringS (prefs ''hdmiValue''))
      in if isNaN inputValue then
           [ShowToast Failure ''Invalid HDMI value''
              (''"'' @ toStringS (prefs ''hdmiValue'') @ ''" is not a valid number'')]
         else
           (let (result, cmds) =
                  switchInput w inputValue
                    (case prefs ''controlMyMonitorPath'' of
                       None \<Rightarrow> None
                     | Some path \<Rightarrow> if path = [] then None else Some path)
                    (case prefs ''monitorId'' of
                       None \<Rightarrow> ''Primary''
                     | Some m \<Rightarrow> if m = [] then ''Primary'' else m)
            in [CloseMainWindow] @
               map ExecSync cmds @
               [if success result then
                  ShowHUD (checkMark @ '' Switched to HDMI ('' @ showNumber inputValue @ '')'')
                else ShowToast Failure ''Switch Failed'' (message result)]))\<close>

text \<open>switch-to-displayport.tsx (stored as part_001): the same command for the DisplayPort code.\<close>

definition Command_switch_to_displayport :: \<open>world \<Rightarrow> event list\<close> where
  \<open>Command_switch_to_displayport w =
     (let prefs = getPreferenceValues w;
          inputValue = parseInt (toStringS (prefs ''displayportValue''))
      in if isNaN inputValue then
           [ShowToast Failure ''Invalid DisplayPort value''
              (''"'' @ toStringS (prefs ''displayportValue'') @ ''" is not a valid number'')]
         else
           (let (result, cmds) =
                  switchInput w inputValue
                    (case prefs ''controlMyMonitorPath'' of
                       None \<Rightarrow> None
                     | Some path \<Rightarrow> if path = [] then None else Some path)
                    (case prefs ''monitorId'' of
                       None \<Rightarrow> ''Primary''
                     | Some m \<Rightarrow> if m = [] then ''Primary'' else m)
            in [CloseMainWindow] @
               map ExecSync cmds @
               [if success result then
                  ShowHUD (checkMark @ '' Switched to DisplayPort ('' @ showNumber inputValue @ '')'')
                else ShowToast Failure ''Switch Failed'' (message result)]))\<close>

section \<open>The classification as the specification words it\<close>

text \<open>
  The specification's rule for the brand string, read literally: the tests for
  \<^verbatim>\<open>Intel\<close> and \<^verbatim>\<open>Apple\<close> and the pattern \<^verbatim>\<open>Apple M<N>\<close> as written, letter case
  included. \<open>None\<close> is the case the specification leaves open (\<open>N = 0\<close>).
\<close>

fun matchAppleM_literal :: \<open>string \<Rightarrow> string option\<close> where
  \<open>matchAppleM_literal [] = None\<close>
| \<open>matchAppleM_literal (c # cs) =
     (if startsWith (c # cs) ''Apple M'' \<and> takeWhile isDigit (drop 7 (c # cs)) \<noteq> []
      then Some (takeWhile isDigit (drop 7 (c # cs)))
      else matchAppleM_literal cs)\<close>

definition spec_generation :: \<open>string \<Rightarrow> AppleSiliconGen option\<close> where
  \<open>spec_generation brand =
     (if includesStr brand ''Intel'' then Some Intel
      else case matchAppleM_literal brand of
             Some ds \<Rightarrow>
               if digitsValue ds = 1 then Some M1
               else if 2 \<le> digitsValue ds then Some M2_or_later
               else None
           | None \<Rightarrow> if includesStr brand ''Apple'' then Some M2_or_later else Some Unknown)\<close>

section \<open>Example hosts\<close>

text \<open>
  A Mac whose \<^verbatim>\<open>sysctl\<close> reports the brand string \<open>brand\<close>, with m1ddc installed and
  configured, and a Windows machine with ControlMyMonitor configured. Every other process
  exits with status 0 and prints nothing.
\<close>

definition mac_host :: \<open>string \<Rightarrow> world\<close> where
  \<open>mac_host brand =
     \<lparr>os_platform = ''darwin'',
      run = (\<lambda>cmd.
        if cmd = sysctl_command \<or> cmd = sysctl_command2 then Exited 0 (brand @ ''\<newline>'') []
        else if cmd = ''which m1ddc'' then Exited 0 ''/opt/homebrew/bin/m1ddc\<newline>'' []
        else if cmd = ''m1ddc get input'' then Exited 0 ''15\<newline>'' []
        else Exited 0 [] []),
      existsSync = (\<lambda>path. path = ''/opt/homebrew/bin/m1ddc''),
      getPreferenceValues =
        [''displayPortValue'' \<mapsto> ''15'', ''hdmiPortValue'' \<mapsto> ''17'', ''hdmiValue'' \<mapsto> ''17'',
         ''m1ddcPath'' \<mapsto> ''/opt/homebrew/bin/m1ddc'', ''controlMyMonitorPath'' \<mapsto> [],
         ''monitorId'' \<mapsto> ''Primary'']\<rparr>\<close>

definition win_host :: world where
  \<open>win_host =
     \<lparr>os_platform = ''win32'',
      run = (\<lambda>cmd. Exited 0 [] []),
      existsSync = (\<lambda>path. path = ''C:/Tools/ControlMyMonitor.exe''),
      getPreferenceValues =
        [''displayPortValue'' \<mapsto> ''15'', ''hdmiPortValue'' \<mapsto> ''17'', ''hdmiValue'' \<mapsto> ''17'',
         ''m1ddcPath'' \<mapsto> [], ''controlMyMonitorPath'' \<mapsto> ''C:/Tools/ControlMyMonitor.exe'',
         ''monitorId'' \<mapsto> ''Primary'']\<rparr>\<close>

text \<open>The same host where the process for one command line ends as \<open>p\<close>.\<close>

definition with_process :: \<open>world \<Rightarrow> string \<Rightarrow> proc_end \<Rightarrow> world\<close> where
  \<open>with_process w cmd p = w\<lparr>run := (run w)(cmd := p)\<rparr>\<close>

text \<open>The same host with one preference set to \<open>v\<close>.\<close>

definition with_preference :: \<open>world \<Rightarrow> string \<Rightarrow> string \<Rightarrow> world\<close> where
  \<open>with_preference w k v = w\<lparr>getPreferenceValues := (getPreferenceValues w)(k \<mapsto> v)\<rparr>\<close>

text \<open>A Mac on which \<^verbatim>\<open>sysctl\<close> is killed at its timeout, however it is called.\<close>

definition mac_host_no_sysctl :: world where
  \<open>mac_host_no_sysctl =
     with_process
       (with_process (mac_host ''Apple M2'') sysctl_command (Threw ''spawnSync /bin/sh ETIMEDOUT''))
       sysctl_command2 (Threw ''spawnSync /bin/bash ETIMEDOUT'')\<close>

section \<open>Facts about the string primitives\<close>

lemma startsWith_iff: \<open>startsWith s sub \<longleftrightarrow> (\<exists>q. s = sub @ q)\<close>
  by (induction s sub rule: startsWith.induct) auto

lemma includes_iff: \<open>includesStr s sub \<longleftrightarrow> (\<exists>p q. s = p @ sub @ q)\<close>
proof (induction s)
  case Nil
  then show ?case by auto
next
  case (Cons x xs)
  show ?case
  proof
    assume \<open>includesStr (x # xs) sub\<close>
    then consider \<open>startsWith (x # xs) sub\<close> | \<open>includesStr xs sub\<close> by auto
    then show \<open>\<exists>p q. x # xs = p @ sub @ q\<close>
    proof cases
      case 1
      then obtain q where \<open>x # xs = sub @ q\<close> by (auto simp: startsWith_iff)
      then have \<open>x # xs = [] @ sub @ q\<close> by simp
      then show ?thesis by blast
    next
      case 2
      then obtain p q where \<open>xs = p @ sub @ q\<close> using Cons.IH by blast
      then have \<open>x # xs = (x # p) @ sub @ q\<close> by simp
      then show ?thesis by blast
    qed
  next
    assume \<open>\<exists>p q. x # xs = p @ sub @ q\<close>
    then obtain p q where pq: \<open>x # xs = p @ sub @ q\<close> by blast
    show \<open>includesStr (x # xs) sub\<close>
    proof (cases p)
      case Nil
      with pq have \<open>startsWith (x # xs) sub\<close> by (auto simp: startsWith_iff)
      then show ?thesis by simp
    next
      case (Cons y ys)
      with pq have \<open>xs = ys @ sub @ q\<close> by simp
      then have \<open>includesStr xs sub\<close> using Cons.IH by blast
      then show ?thesis by simp
    qed
  qed
qed

lemma includes_toLowerCase:
  \<open>includesStr s sub \<Longrightarrow> includesStr (toLowerCase s) (toLowerCase sub)\<close>
  unfolding includes_iff toLowerCase_def by (metis map_append)

lemma parseInt_digits:
  assumes \<open>ds \<noteq> []\<close> \<open>\<forall>c\<in>set ds. isDigit c\<close>
  shows \<open>parseInt ds = Some (int (digitsValue ds))\<close>
proof -
  obtain d r where dr: \<open>ds = d # r\<close> using assms(1) by (cases ds) auto
  have d: \<open>isDigit d\<close> using assms(2) dr by simp
  then have nws: \<open>\<not> isWhiteSpace d\<close> \<open>d \<noteq> CHR ''-''\<close> \<open>d \<noteq> CHR ''+''\<close>
    by (auto simp: isDigit_def isWhiteSpace_def)
  have tw: \<open>takeWhile isDigit ds = ds\<close> using assms(2) by (simp add: takeWhile_eq_all_conv)
  show ?thesis using nws tw dr by (simp add: parseInt_def Let_def)
qed

lemma matchAppleM_digits:
  \<open>matchAppleM s = Some ds \<Longrightarrow> ds \<noteq> [] \<and> (\<forall>c\<in>set ds. isDigit c)\<close>
  by (induction s) (auto split: if_splits dest: set_takeWhileD)

lemma toLowerCase_append: \<open>toLowerCase (a @ b) = toLowerCase a @ toLowerCase b\<close>
  by (simp add: toLowerCase_def)

lemma matchAppleM_sound:
  \<open>matchAppleM s = Some ds \<Longrightarrow>
     \<exists>p a r. s = p @ a @ ds @ r \<and> toLowerCase a = ''apple m'' \<and> ds \<noteq> [] \<and>
             (\<forall>c\<in>set ds. isDigit c) \<and> (r = [] \<or> \<not> isDigit (hd r))\<close>
proof (induction s)
  case Nil
  then show ?case by simp
next
  case (Cons c cs)
  let ?s = \<open>c # cs\<close>
  show ?case
  proof (cases \<open>startsWith (toLowerCase ?s) ''apple m'' \<and> takeWhile isDigit (drop 7 ?s) \<noteq> []\<close>)
    case True
    then have ds: \<open>ds = takeWhile isDigit (drop 7 ?s)\<close> using Cons.prems by simp
    obtain q where q: \<open>toLowerCase ?s = ''apple m'' @ q\<close>
      using True by (auto simp: startsWith_iff)
    have \<open>toLowerCase (take 7 ?s) = take 7 (toLowerCase ?s)\<close>
      by (simp add: toLowerCase_def take_map)
    also have \<open>\<dots> = ''apple m''\<close> by (simp add: q)
    finally have a: \<open>toLowerCase (take 7 ?s) = ''apple m''\<close> .
    let ?r = \<open>dropWhile isDigit (drop 7 ?s)\<close>
    have split: \<open>?s = [] @ take 7 ?s @ ds @ ?r\<close>
      unfolding ds by (simp only: append_Nil takeWhile_dropWhile_id append_take_drop_id)
    have r: \<open>?r = [] \<or> \<not> isDigit (hd ?r)\<close>
      by (metis hd_dropWhile)
    have dig: \<open>ds \<noteq> [] \<and> (\<forall>c\<in>set ds. isDigit c)\<close>
      using True ds by (auto dest: set_takeWhileD)
    show ?thesis using split a r dig by blast
  next
    case False
    then have \<open>matchAppleM cs = Some ds\<close> using Cons.prems by (simp split: if_splits)
    then obtain p a r where \<open>cs = p @ a @ ds @ r\<close> \<open>toLowerCase a = ''apple m''\<close> \<open>ds \<noteq> []\<close>
      \<open>\<forall>c\<in>set ds. isDigit c\<close> \<open>r = [] \<or> \<not> isDigit (hd r)\<close>
      using Cons.IH by blast
    then have \<open>?s = (c # p) @ a @ ds @ r\<close> by simp
    then show ?thesis
      using \<open>toLowerCase a = ''apple m''\<close> \<open>ds \<noteq> []\<close> \<open>\<forall>c\<in>set ds. isDigit c\<close>
        \<open>r = [] \<or> \<not> isDigit (hd r)\<close> by blast
  qed
qed

lemma matchAppleM_complete:
  assumes \<open>toLowerCase a = ''apple m''\<close> \<open>isDigit d\<close>
  shows \<open>matchAppleM (p @ a @ d # r) \<noteq> None\<close>
proof (induction p)
  case Nil
  have \<open>length (toLowerCase a) = 7\<close> using assms(1) by simp
  then have len: \<open>length a = 7\<close> by (simp add: toLowerCase_def)
  then obtain x xs where a: \<open>a = x # xs\<close> by (cases a) auto
  have sw: \<open>startsWith (toLowerCase (a @ d # r)) ''apple m''\<close>
    using assms(1) by (simp add: startsWith_iff toLowerCase_append)
  have \<open>drop 7 (a @ d # r) = d # r\<close> using len by simp
  then have tw: \<open>takeWhile isDigit (drop 7 (a @ d # r)) \<noteq> []\<close> using assms(2) by simp
  show ?case using sw tw a by simp
next
  case (Cons x p)
  then show ?case by simp
qed

lemma matchAppleM_includes_apple:
  assumes \<open>matchAppleM s = Some ds\<close>
  shows \<open>includesStr (toLowerCase s) ''apple''\<close>
proof -
  obtain p a r where s: \<open>s = p @ a @ ds @ r\<close> and a: \<open>toLowerCase a = ''apple m''\<close>
    using matchAppleM_sound[OF assms] by blast
  have \<open>toLowerCase s = toLowerCase p @ ''apple'' @ ('' m'' @ toLowerCase (ds @ r))\<close>
    using a by (simp add: s toLowerCase_append)
  then show ?thesis unfolding includes_iff by blast
qed

section \<open>Facts about classification\<close>

lemma detect_try_Inr:
  assumes \<open>execSync (run w cmd) = Inr out\<close>
  shows \<open>detectAppleSiliconGeneration_try w cmd =
           Inr (let brand = trim out in
                if includesStr (toLowerCase brand) ''intel'' then Intel
                else case matchAppleM brand of
                       Some ds \<Rightarrow> if 2 \<le> digitsValue ds then M2_or_later else M1
                     | None \<Rightarrow> if includesStr (toLowerCase brand) ''apple'' then M2_or_later
                               else Unknown)\<close>
proof (cases \<open>matchAppleM (trim out)\<close>)
  case None
  then show ?thesis using assms by (simp add: detectAppleSiliconGeneration_try_def Let_def)
next
  case (Some ds)
  then have \<open>parseInt ds = Some (int (digitsValue ds))\<close>
    using matchAppleM_digits parseInt_digits by blast
  then show ?thesis using assms Some
    by (simp add: detectAppleSiliconGeneration_try_def Let_def)
qed

lemma hdmi_iff_m2: \<open>m1ddcSupportsBuiltinHdmi (detectPlatform w) \<longleftrightarrow> appleChipGen (detectPlatform w) = M2_or_later\<close>
  by (simp add: detectPlatform_def Let_def)

lemma mac_host_sysctl:
  \<open>execSync (run (mac_host brand) sysctl_command) = Inr (brand @ ''\<newline>'')\<close>
  by (simp add: mac_host_def execSync_def)

lemma detect_catch:
  \<open>execSync (run w cmd) = Inl e \<Longrightarrow> detectAppleSiliconGeneration_try w cmd = Inl e\<close>
  by (simp add: detectAppleSiliconGeneration_try_def)

section \<open>Facts about the dispatcher\<close>

lemma showNumber_VCP: \<open>showNumber VCP_INPUT_SOURCE = ''60''\<close>
  by (simp add: VCP_INPUT_SOURCE_def showNumber_def showNat.simps digitChar_def)

lemma showNumber_15: \<open>showNumber (Some 15) = ''15''\<close>
  by (simp add: showNumber_def showNat.simps digitChar_def)

lemma showNumber_17: \<open>showNumber (Some 17) = ''17''\<close>
  by (simp add: showNumber_def showNat.simps digitChar_def)

lemma execSync_Inr_iff: \<open>(\<exists>out. execSync p = Inr out) \<longleftrightarrow> exitedZero p\<close>
  by (cases p) (auto simp: execSync_def exitedZero_def)

lemma execSync_cases:
  obtains (ok) out where \<open>execSync p = Inr out\<close> \<open>exitedZero p\<close>
        | (fail) e where \<open>execSync p = Inl e\<close> \<open>\<not> exitedZero p\<close>
  by (cases p) (auto simp: execSync_def exitedZero_def)

lemma includesStr_mid: \<open>includesStr (p @ sub @ q) sub\<close>
  unfolding includes_iff by blast

lemma includesStr_suffix: \<open>includesStr (p @ sub) sub\<close>
  using includesStr_mid[of p sub \<open>[]\<close>] by simp

lemma switchInputMacOS_cmds:
  \<open>snd (switchInputMacOS w v) = [''m1ddc set input '' @ showNumber v]\<close>
  by (simp add: switchInputMacOS_def Let_def split: sum.split)

lemma switchInputWindows_cmds:
  \<open>snd (switchInputWindows w v exePath m) =
     [''"'' @ exePath @ ''" /SetValue "'' @ m @ ''" 60 '' @ showNumber v]\<close>
  by (simp add: switchInputWindows_def Let_def showNumber_VCP split: sum.split)

lemma switchInputMacToWindows_cmds:
  \<open>snd (switchInputMacToWindows w v exePath) = [''"'' @ exePath @ ''" set input '' @ showNumber v]\<close>
  by (simp add: switchInputMacToWindows_def Let_def split: sum.split)

lemma switchInputWindowsToMac_cmds:
  \<open>snd (switchInputWindowsToMac w v m exePath) =
     [''"'' @ exePath @ ''" /SetValue "'' @ m @ ''" 60 '' @ showNumber v]\<close>
  by (simp add: switchInputWindowsToMac_def Let_def showNumber_VCP split: sum.split)

lemma switchInputMacOS_success:
  \<open>success (fst (switchInputMacOS w v)) \<longleftrightarrow> exitedZero (run w (''m1ddc set input '' @ showNumber v))\<close>
  by (cases \<open>run w (''m1ddc set input '' @ showNumber v)\<close> rule: execSync_cases)
     (simp_all add: switchInputMacOS_def Let_def)

lemma switchInputWindows_success:
  \<open>success (fst (switchInputWindows w v exePath m)) \<longleftrightarrow>
     exitedZero (run w (''"'' @ exePath @ ''" /SetValue "'' @ m @ ''" 60 '' @ showNumber v))\<close>
  by (cases \<open>run w (''"'' @ exePath @ ''" /SetValue "'' @ m @ ''" 60 '' @ showNumber v)\<close> rule: execSync_cases)
     (simp_all add: switchInputWindows_def Let_def showNumber_VCP)

lemma switchInputMacToWindows_success:
  \<open>success (fst (switchInputMacToWindows w v exePath)) \<longleftrightarrow>
     exitedZero (run w (''"'' @ exePath @ ''" set input '' @ showNumber v))\<close>
  by (cases \<open>run w (''"'' @ exePath @ ''" set input '' @ showNumber v)\<close> rule: execSync_cases)
     (simp_all add: switchInputMacToWindows_def Let_def)

lemma switchInputWindowsToMac_success:
  \<open>success (fst (switchInputWindowsToMac w v m exePath)) \<longleftrightarrow>
     exitedZero (run w (''"'' @ exePath @ ''" /SetValue "'' @ m @ ''" 60 '' @ showNumber v))\<close>
  by (cases \<open>run w (''"'' @ exePath @ ''" /SetValue "'' @ m @ ''" 60 '' @ showNumber v)\<close> rule: execSync_cases)
     (simp_all add: switchInputWindowsToMac_def Let_def showNumber_VCP)

lemma ToastResult_apply:
  \<open>ToastResult a b c k =
     (if k = ''message'' then Some (JStr c) else if k = ''title'' then Some (JStr b)
      else if k = ''status'' then Some (JStr a) else None)\<close>
  by (simp add: ToastResult_def)

lemma switchInput2_status:
  \<open>fst (switchInput2 w platformOs v m exePath) ''status'' = Some (JStr ''success'') \<longleftrightarrow>
     exitedZero (run w (if platformOs = Some (JStr ''darwin'')
                        then ''"'' @ exePath @ ''" set input '' @ showNumber v
                        else ''"'' @ exePath @ ''" /SetValue "'' @ m @ ''" 60 '' @ showNumber v))\<close>
  using switchInputMacToWindows_success[of w v exePath] switchInputWindowsToMac_success[of w v m exePath]
  by (simp add: switchInput2_def Let_def split_beta GenericSuccess_def ToastResult_apply)

lemma switchInput2_cmds:
  \<open>snd (switchInput2 w platformOs v m exePath) =
     [if platformOs = Some (JStr ''darwin'')
      then ''"'' @ exePath @ ''" set input '' @ showNumber v
      else ''"'' @ exePath @ ''" /SetValue "'' @ m @ ''" 60 '' @ showNumber v]\<close>
  by (simp add: switchInput2_def Let_def split_beta switchInputMacToWindows_cmds switchInputWindowsToMac_cmds)

lemma switchInput_success:
  assumes \<open>success (fst (switchInput w v p m))\<close>
  shows \<open>\<exists>cmd. snd (switchInput w v p m) = [cmd] \<and> exitedZero (run w cmd)\<close>
proof (cases \<open>validatePrerequisites w p\<close>)
  case (Some err)
  then show ?thesis using assms by (simp add: switchInput_def)
next
  case None
  show ?thesis
  proof (cases \<open>os (detectPlatform w)\<close>)
    case Darwin
    then show ?thesis using assms None
      by (simp add: switchInput_def switchInputMacOS_cmds switchInputMacOS_success)
  next
    case Win32
    then show ?thesis using assms None
      by (simp add: switchInput_def switchInputWindows_cmds switchInputWindows_success)
  next
    case Unsupported
    then show ?thesis using assms None by (simp add: switchInput_def)
  qed
qed

lemma includesStr_joinLines: \<open>l \<in> set ls \<Longrightarrow> includesStr (joinLines ls) l\<close>
proof (induction ls rule: joinLines.induct)
  case 1
  then show ?case by simp
next
  case (2 l')
  then show ?case using includesStr_mid[of \<open>[]\<close> l \<open>[]\<close>] by simp
next
  case (3 a b ls)
  show ?case
  proof (cases \<open>l = a\<close>)
    case True
    then show ?thesis using includesStr_mid[of \<open>[]\<close> a \<open>''\<newline>'' @ joinLines (b # ls)\<close>] by simp
  next
    case False
    then have \<open>includesStr (joinLines (b # ls)) l\<close> using 3 by simp
    then obtain p q where \<open>joinLines (b # ls) = p @ l @ q\<close> unfolding includes_iff by blast
    then have \<open>joinLines (a # b # ls) = (a @ ''\<newline>'' @ p) @ l @ q\<close> by simp
    then show ?thesis unfolding includes_iff by blast
  qed
qed

lemma parseInt_15: \<open>parseInt (trim ''15\<newline>'') = Some 15\<close>
  by (simp add: parseInt_def trim_def isWhiteSpace_def isDigit_def digitsValue_def)

lemma parseInt_empty: \<open>parseInt (trim []) = None\<close>
  by (simp add: parseInt_def trim_def)

section \<open>Facts about validation\<close>

lemma add_Toast_status: \<open>(obj ++ ToastResult a b c) ''status'' = Some (JStr a)\<close>
  by (simp add: map_add_def ToastResult_apply)

lemma add_Toast_title: \<open>(obj ++ ToastResult a b c) ''title'' = Some (JStr b)\<close>
  by (simp add: map_add_def ToastResult_apply)

lemma add_Toast_message: \<open>(obj ++ ToastResult a b c) ''message'' = Some (JStr c)\<close>
  by (simp add: map_add_def ToastResult_apply)

lemma add_Toast_other:
  \<open>k \<noteq> ''status'' \<Longrightarrow> k \<noteq> ''title'' \<Longrightarrow> k \<noteq> ''message'' \<Longrightarrow> (obj ++ ToastResult a b c) k = obj k\<close>
  by (simp add: map_add_def ToastResult_apply)

lemmas add_Toast = add_Toast_status add_Toast_title add_Toast_message add_Toast_other

lemma objPlatformInfo_apply:
  \<open>objPlatformInfo info k =
     (if k = ''m1ddcSupportsBuiltinHdmi'' then Some (JBool (m1ddcSupportsBuiltinHdmi info))
      else if k = ''isAppleSilicon'' then Some (JBool (isAppleSilicon info))
      else if k = ''appleChipGen'' then Some (JStr (genString (appleChipGen info)))
      else if k = ''isWin32'' then Some (JBool (isWin32 info))
      else if k = ''os'' then Some (JStr (osString (os info)))
      else None)\<close>
  by (simp add: objPlatformInfo_def)

lemma detectPlatform2_darwin:
  \<open>os_platform w = ''darwin'' \<Longrightarrow>
     detectPlatform2 w =
       \<lparr>os = Darwin, isAppleSilicon = (detectAppleSiliconGeneration2 w \<noteq> Intel),
        appleChipGen = detectAppleSiliconGeneration2 w,
        m1ddcSupportsBuiltinHdmi = (detectAppleSiliconGeneration2 w = M2_or_later),
        isWin32 = False\<rparr>\<close>
  by (simp add: detectPlatform2_def Let_def)

lemma detectPlatform_darwin:
  \<open>os_platform w = ''darwin'' \<Longrightarrow>
     detectPlatform w =
       \<lparr>os = Darwin, isAppleSilicon = (detectAppleSiliconGeneration w \<noteq> Intel),
        appleChipGen = detectAppleSiliconGeneration w,
        m1ddcSupportsBuiltinHdmi = (detectAppleSiliconGeneration w = M2_or_later)\<rparr>\<close>
  by (simp add: detectPlatform_def Let_def)

text \<open>What \<^verbatim>\<open>validateHostPlatform\<close> returns on a Mac, by generation.\<close>

lemma validateHostPlatform_darwin:
  assumes \<open>os_platform w = ''darwin''\<close>
  shows \<open>validateHostPlatform w =
           objPlatformInfo (detectPlatform2 w) ++
           (if detectAppleSiliconGeneration2 w = Intel then
              ToastResult ''failure'' ''m1ddc requires Apple Silicon (M1 or later)''
                ''M1 is partially supported, Intel Macs are not supported.''
            else if detectAppleSiliconGeneration2 w = M1 then
              ToastResult ''soft-fail'' ''m1ddc does not support M1's built-in HDMI port!''
                ''External displays via USB-C/Thunderbolt adapters should work.''
            else ToastResult ''success'' [] [])\<close>
  using assms
  by (simp add: validateHostPlatform_def detectPlatform2_darwin GenericSuccess_def Let_def)

lemma validateHostPlatform_darwin_status:
  assumes \<open>os_platform w = ''darwin''\<close>
  shows \<open>validateHostPlatform w ''status'' =
           Some (JStr (if detectAppleSiliconGeneration2 w = Intel then ''failure''
                       else if detectAppleSiliconGeneration2 w = M1 then ''soft-fail''
                       else ''success''))\<close>
  by (simp add: validateHostPlatform_darwin[OF assms] add_Toast_status)

lemma validateHostPlatform_darwin_os:
  assumes \<open>os_platform w = ''darwin''\<close>
  shows \<open>validateHostPlatform w ''os'' = Some (JStr ''darwin'')\<close>
  by (simp add: validateHostPlatform_darwin[OF assms] add_Toast_other objPlatformInfo_apply
      detectPlatform2_darwin[OF assms] osString_def)

lemma validateHostPlatform_toast:
  \<open>\<exists>a b c. validateHostPlatform w = objPlatformInfo (detectPlatform2 w) ++ ToastResult a b c\<close>
  unfolding validateHostPlatform_def Let_def GenericSuccess_def
  by (cases \<open>os (detectPlatform2 w)\<close>; cases \<open>appleChipGen (detectPlatform2 w)\<close>) auto

lemma validateHostPlatform_no_prefs:
  assumes \<open>k = ''m1ddcPath'' \<or> k = ''controlMyMonitorPath'' \<or> k = ''displayPortValue''
           \<or> k = ''hdmiPortValue'' \<or> k = ''monitorId''\<close>
  shows \<open>validateHostPlatform w k = None\<close>
proof -
  obtain a b c where v: \<open>validateHostPlatform w = objPlatformInfo (detectPlatform2 w) ++ ToastResult a b c\<close>
    using validateHostPlatform_toast by blast
  have \<open>k \<noteq> ''status''\<close> \<open>k \<noteq> ''title''\<close> \<open>k \<noteq> ''message''\<close> using assms by auto
  then have \<open>validateHostPlatform w k = objPlatformInfo (detectPlatform2 w) k\<close>
    by (simp add: v add_Toast_other)
  also have \<open>\<dots> = None\<close> using assms by (auto simp: objPlatformInfo_apply)
  finally show ?thesis .
qed

text \<open>
  The outcome of \<^verbatim>\<open>validatePreferences\<close> depends on the tool's path alone: the status is
  a success exactly when the path is set, not blank and exists.
\<close>

lemma validatePreferences_success:
  assumes \<open>(if p ''os'' = Some (JStr ''darwin'') then getPreferenceValues w ''m1ddcPath''
            else getPreferenceValues w ''controlMyMonitorPath'') = Some path\<close>
    and \<open>path \<noteq> []\<close> \<open>trim path \<noteq> []\<close> \<open>existsSync w path\<close>
  shows \<open>validatePreferences w p = objPreferences (getPreferenceValues w) ++ GenericSuccess\<close>
  using assms by (simp add: validatePreferences_def Let_def)

lemma validatePreferences_status:
  \<open>validatePreferences w p ''status'' =
     Some (JStr (case (if p ''os'' = Some (JStr ''darwin'') then getPreferenceValues w ''m1ddcPath''
                       else getPreferenceValues w ''controlMyMonitorPath'') of
                   None \<Rightarrow> ''failure''
                 | Some path \<Rightarrow>
                     if path \<noteq> [] \<and> trim path \<noteq> [] \<and> existsSync w path then ''success''
                     else ''failure''))\<close>
proof (cases \<open>if p ''os'' = Some (JStr ''darwin'') then getPreferenceValues w ''m1ddcPath''
              else getPreferenceValues w ''controlMyMonitorPath''\<close>)
  case None
  then show ?thesis by (simp add: validatePreferences_def Let_def add_Toast_status)
next
  case (Some path)
  then show ?thesis
    by (simp add: validatePreferences_def Let_def add_Toast_status GenericSuccess_def)
qed

lemma validatePreferences_status_cases:
  \<open>validatePreferences w p ''status'' = Some (JStr ''success'')
   \<or> validatePreferences w p ''status'' = Some (JStr ''failure'')\<close>
  unfolding validatePreferences_status by (simp split: option.split)

lemma validatePreferences_ignores_input_codes:
  assumes \<open>k = ''hdmiPortValue'' \<or> k = ''displayPortValue''\<close>
  shows \<open>validatePreferences (with_preference w k v) p ''status'' = validatePreferences w p ''status''\<close>
proof -
  have \<open>getPreferenceValues (with_preference w k v) ''m1ddcPath'' = getPreferenceValues w ''m1ddcPath''\<close>
    \<open>getPreferenceValues (with_preference w k v) ''controlMyMonitorPath'' =
       getPreferenceValues w ''controlMyMonitorPath''\<close>
    \<open>existsSync (with_preference w k v) = existsSync w\<close>
    using assms by (auto simp: with_preference_def)
  then show ?thesis unfolding validatePreferences_status by (simp split: option.split)
qed

lemma common_status:
  \<open>validatePrerequisites_common w ''status'' =
     (if validateHostPlatform w ''status'' = Some (JStr ''failure'') then Some (JStr ''failure'')
      else validatePreferences w (validateHostPlatform w) ''status'')\<close>
proof (cases \<open>validateHostPlatform w ''status'' = Some (JStr ''failure'')\<close>)
  case True
  then show ?thesis by (simp add: validatePrerequisites_common_def)
next
  case False
  obtain s where \<open>validatePreferences w (validateHostPlatform w) ''status'' = Some s\<close>
    using validatePreferences_status_cases[of w \<open>validateHostPlatform w\<close>] by blast
  then show ?thesis using False
    by (simp add: validatePrerequisites_common_def Let_def map_add_def)
qed

lemma toString_JStr: \<open>toString (map_option JStr v) = toStringS v\<close>
  by (cases v) (simp_all add: toString_def toStringS_def)

lemma toggle_from_dispatches:
  assumes \<open>cv ''status'' \<noteq> Some (JStr ''failure'')\<close>
  shows \<open>\<exists>cmd. ExecSync cmd \<in> set (Command_toggle_from w cv)\<close>
  using assms
  by (simp add: Command_toggle_from_def Let_def split_beta switchInput2_cmds)

lemma toggle_dispatches_on_mac:
  assumes darwin: \<open>os_platform w = ''darwin''\<close>
    and gen: \<open>detectAppleSiliconGeneration2 w \<noteq> Intel\<close>
    and path: \<open>getPreferenceValues w ''m1ddcPath'' = Some path\<close>
      \<open>path \<noteq> []\<close> \<open>trim path \<noteq> []\<close> \<open>existsSync w path\<close>
    and noos: \<open>getPreferenceValues w ''os'' = None\<close>
  shows \<open>ExecSync (''"'' @ path @ ''" set input '' @
             showNumber (parseInt (toStringS (getPreferenceValues w ''displayPortValue''))))
          \<in> set (Command_toggle_input_source w)\<close>
proof -
  let ?hp = \<open>validateHostPlatform w\<close>
  let ?cv = \<open>validatePrerequisites_common w\<close>
  have hs: \<open>?hp ''status'' \<noteq> Some (JStr ''failure'')\<close>
    using gen by (simp add: validateHostPlatform_darwin_status[OF darwin])
  have hos: \<open>?hp ''os'' = Some (JStr ''darwin'')\<close>
    by (rule validateHostPlatform_darwin_os[OF darwin])
  have vp: \<open>validatePreferences w ?hp = objPreferences (getPreferenceValues w) ++ GenericSuccess\<close>
    using validatePreferences_success[of ?hp w path] hos path by simp
  have cv: \<open>?cv = (?hp ++ objPreferences (getPreferenceValues w)) ++ ToastResult ''success'' [] []\<close>
    using hs vp by (simp add: validatePrerequisites_common_def Let_def GenericSuccess_def)
  have st: \<open>?cv ''status'' = Some (JStr ''success'')\<close>
    by (simp add: cv add_Toast_status)
  have other: \<open>?cv k = (?hp ++ objPreferences (getPreferenceValues w)) k\<close>
    if \<open>k \<noteq> ''status''\<close> \<open>k \<noteq> ''title''\<close> \<open>k \<noteq> ''message''\<close> for k
    using that by (simp add: cv add_Toast_other)
  have os: \<open>?cv ''os'' = Some (JStr ''darwin'')\<close>
    using hos noos by (simp add: other map_add_def objPreferences_def)
  have p: \<open>?cv ''m1ddcPath'' = Some (JStr path)\<close>
    using path(1) by (simp add: other map_add_def objPreferences_def)
  have d: \<open>toString (?cv ''displayPortValue'') = toStringS (getPreferenceValues w ''displayPortValue'')\<close>
  proof -
    have \<open>?hp ''displayPortValue'' = None\<close> by (simp add: validateHostPlatform_no_prefs)
    then have \<open>?cv ''displayPortValue'' = map_option JStr (getPreferenceValues w ''displayPortValue'')\<close>
      by (cases \<open>getPreferenceValues w ''displayPortValue''\<close>)
         (simp_all add: other map_add_def objPreferences_def)
    then show ?thesis by (simp only: toString_JStr)
  qed
  have tp: \<open>toString (Some (JStr path)) = path\<close> by (simp add: toString_def)
  show ?thesis
    unfolding Command_toggle_input_source_def Command_toggle_from_def
    by (simp add: st os p d tp Let_def split_beta switchInput2_cmds)
qed

lemma validatePrerequisites_darwin:
  assumes \<open>os_platform w = ''darwin''\<close>
  shows \<open>validatePrerequisites w p =
           (if detectAppleSiliconGeneration w = Intel then
              Some ''m1ddc requires Apple Silicon (M1 or later). Intel Macs are not supported.''
            else if \<not> isM1ddcInstalled w then
              Some ''m1ddc is not installed. Install via: brew install m1ddc''
            else None)\<close>
  by (simp add: validatePrerequisites_def detectPlatform_darwin[OF assms])

lemma switchInput_darwin:
  assumes \<open>os_platform w = ''darwin''\<close> \<open>detectAppleSiliconGeneration w \<noteq> Intel\<close> \<open>isM1ddcInstalled w\<close>
  shows \<open>switchInput w v p m = switchInputMacOS w v\<close>
  using assms
  by (simp add: switchInput_def validatePrerequisites_darwin detectPlatform_darwin)

lemma common_never_soft_fail:
  \<open>validatePrerequisites_common w ''status'' \<noteq> Some (JStr ''soft-fail'')\<close>
  using validatePreferences_status_cases[of w \<open>validateHostPlatform w\<close>]
  by (auto simp add: common_status)

text \<open>The example hosts, evaluated.\<close>

lemma mac_host_sysctl2:
  \<open>execSync (run (mac_host brand) sysctl_command2) = Inr (brand @ ''\<newline>'')\<close>
  by (simp add: mac_host_def execSync_def)

lemma with_preference_same:
  \<open>run (with_preference w k v) = run w\<close>
  \<open>os_platform (with_preference w k v) = os_platform w\<close>
  \<open>existsSync (with_preference w k v) = existsSync w\<close>
  by (simp_all add: with_preference_def)

lemma with_preference_gen:
  \<open>detectAppleSiliconGeneration (with_preference w k v) = detectAppleSiliconGeneration w\<close>
  \<open>detectAppleSiliconGeneration2 (with_preference w k v) = detectAppleSiliconGeneration2 w\<close>
  \<open>isM1ddcInstalled (with_preference w k v) = isM1ddcInstalled w\<close>
  by (simp_all add: detectAppleSiliconGeneration_def detectAppleSiliconGeneration2_def
      detectAppleSiliconGeneration_try_def isM1ddcInstalled_def with_preference_same)

lemma mac_host_basics:
  \<open>os_platform (mac_host brand) = ''darwin''\<close>
  \<open>isM1ddcInstalled (mac_host brand)\<close>
  \<open>existsSync (mac_host brand) ''/opt/homebrew/bin/m1ddc''\<close>
  \<open>getPreferenceValues (mac_host brand) ''m1ddcPath'' = Some ''/opt/homebrew/bin/m1ddc''\<close>
  \<open>getPreferenceValues (mac_host brand) ''os'' = None\<close>
  \<open>getPreferenceValues (mac_host brand) ''displayPortValue'' = Some ''15''\<close>
  \<open>getPreferenceValues (mac_host brand) ''controlMyMonitorPath'' = Some []\<close>
  \<open>getPreferenceValues (mac_host brand) ''monitorId'' = Some ''Primary''\<close>
  by (simp_all add: mac_host_def isM1ddcInstalled_def execSync_def sysctl_command_def
      sysctl_command2_def)

lemma trim_m1ddc_path: \<open>trim ''/opt/homebrew/bin/m1ddc'' \<noteq> []\<close>
  by (simp add: trim_def isWhiteSpace_def)

lemma mac_M1_gen2: \<open>detectAppleSiliconGeneration2 (mac_host ''Apple M1'') = M1\<close>
  using detect_try_Inr[OF mac_host_sysctl2[of \<open>''Apple M1''\<close>]]
  by (simp add: detectAppleSiliconGeneration2_def trim_def isWhiteSpace_def toLowerCase_def
      lowerChar_def isDigit_def digitsValue_def)

lemma mac_M2_gen2: \<open>detectAppleSiliconGeneration2 (mac_host ''Apple M2'') = M2_or_later\<close>
  using detect_try_Inr[OF mac_host_sysctl2[of \<open>''Apple M2''\<close>]]
  by (simp add: detectAppleSiliconGeneration2_def trim_def isWhiteSpace_def toLowerCase_def
      lowerChar_def isDigit_def digitsValue_def)

lemma mac_M2_gen: \<open>detectAppleSiliconGeneration (mac_host ''Apple M2'') = M2_or_later\<close>
  using detect_try_Inr[OF mac_host_sysctl[of \<open>''Apple M2''\<close>]]
  by (simp add: detectAppleSiliconGeneration_def trim_def isWhiteSpace_def toLowerCase_def
      lowerChar_def isDigit_def digitsValue_def)

lemma parseInt_minus5: \<open>parseInt ''-5'' = Some (- 5)\<close>
  by (simp add: parseInt_def isWhiteSpace_def isDigit_def digitsValue_def)

lemma parseInt_abc: \<open>parseInt ''abc'' = None\<close>
  by (simp add: parseInt_def isWhiteSpace_def isDigit_def)

lemma showNumber_minus5: \<open>showNumber (Some (- 5)) = ''-5''\<close>
  by (simp add: showNumber_def showNat.simps digitChar_def)

text \<open>
  The discarded numeric check at work: with the DisplayPort code set to \<^verbatim>\<open>abc\<close> the combined
  validation still reports success and the toggle command starts m1ddc with the input
  \<^verbatim>\<open>NaN\<close>.
\<close>

lemma toggle_dispatches_unparsable_code:
  \<open>parseInt ''abc'' = None
   \<and> validatePrerequisites_common (with_preference (mac_host ''Apple M2'') ''displayPortValue'' ''abc'')
        ''status'' = Some (JStr ''success'')
   \<and> ExecSync ''"/opt/homebrew/bin/m1ddc" set input NaN''
        \<in> set (Command_toggle_input_source
                 (with_preference (mac_host ''Apple M2'') ''displayPortValue'' ''abc''))\<close>
proof -
  let ?w = \<open>with_preference (mac_host ''Apple M2'') ''displayPortValue'' ''abc''\<close>
  have darwin: \<open>os_platform ?w = ''darwin''\<close>
    by (simp add: with_preference_same mac_host_basics)
  have gen: \<open>detectAppleSiliconGeneration2 ?w \<noteq> Intel\<close>
    by (simp add: with_preference_gen mac_M2_gen2)
  have prefs: \<open>getPreferenceValues ?w ''m1ddcPath'' = Some ''/opt/homebrew/bin/m1ddc''\<close>
    \<open>getPreferenceValues ?w ''os'' = None\<close>
    \<open>getPreferenceValues ?w ''displayPortValue'' = Some ''abc''\<close>
    by (simp_all add: with_preference_def mac_host_basics)
  have ex: \<open>existsSync ?w ''/opt/homebrew/bin/m1ddc''\<close>
    by (simp add: with_preference_same mac_host_basics)
  have hos: \<open>validateHostPlatform ?w ''os'' = Some (JStr ''darwin'')\<close>
    by (rule validateHostPlatform_darwin_os[OF darwin])
  have st: \<open>validatePrerequisites_common ?w ''status'' = Some (JStr ''success'')\<close>
    using gen prefs(1) ex trim_m1ddc_path hos
    by (simp add: common_status validateHostPlatform_darwin_status[OF darwin]
        validatePreferences_status)
  have \<open>ExecSync (''"'' @ ''/opt/homebrew/bin/m1ddc'' @ ''" set input '' @
             showNumber (parseInt (toStringS (getPreferenceValues ?w ''displayPortValue''))))
          \<in> set (Command_toggle_input_source ?w)\<close>
    by (rule toggle_dispatches_on_mac[OF darwin gen prefs(1) _ trim_m1ddc_path ex prefs(2)]) simp
  then have \<open>ExecSync ''"/opt/homebrew/bin/m1ddc" set input NaN''
        \<in> set (Command_toggle_input_source ?w)\<close>
    by (simp add: prefs(3) toStringS_def parseInt_abc showNumber_def)
  then show ?thesis using st parseInt_abc by blast
qed

lemma mac_host_no_sysctl_basics:
  \<open>os_platform mac_host_no_sysctl = ''darwin''\<close>
  \<open>run mac_host_no_sysctl sysctl_command = Threw ''spawnSync /bin/sh ETIMEDOUT''\<close>
  \<open>run mac_host_no_sysctl sysctl_command2 = Threw ''spawnSync /bin/bash ETIMEDOUT''\<close>
  \<open>isM1ddcInstalled mac_host_no_sysctl\<close>
  \<open>existsSync mac_host_no_sysctl ''/opt/homebrew/bin/m1ddc''\<close>
  \<open>getPreferenceValues mac_host_no_sysctl ''m1ddcPath'' = Some ''/opt/homebrew/bin/m1ddc''\<close>
  \<open>getPreferenceValues mac_host_no_sysctl ''os'' = None\<close>
  \<open>getPreferenceValues mac_host_no_sysctl ''displayPortValue'' = Some ''15''\<close>
  by (simp_all add: mac_host_no_sysctl_def with_process_def mac_host_def isM1ddcInstalled_def
      execSync_def sysctl_command_def sysctl_command2_def)

lemma mac_host_no_sysctl_gen:
  \<open>detectAppleSiliconGeneration mac_host_no_sysctl = Unknown\<close>
  \<open>detectAppleSiliconGeneration2 mac_host_no_sysctl = Unknown\<close>
  by (simp_all add: detectAppleSiliconGeneration_def detectAppleSiliconGeneration2_def
      detectAppleSiliconGeneration_try_def mac_host_no_sysctl_basics execSync_def)

lemma parseInt_15_plain: \<open>parseInt ''15'' = Some 15\<close>
  by (simp add: parseInt_def isWhiteSpace_def isDigit_def digitsValue_def)

section \<open>Claims about the dispatcher\<close>

text \<open>
  C1 (as amended). Every Windows dispatch for monitor \<open>m\<close> and input value \<open>v\<close> runs one
  command line, the quoted tool path followed by \<^verbatim>\<open>/SetValue "m" 60 v\<close>: the VCP code on
  the command line is the constant \<^verbatim>\<open>VCP_INPUT_SOURCE = 60\<close>, the hexadecimal digits of
  0x60, not decimal 96. With \<open>v = 17\<close> and \<open>m\<close> \<^verbatim>\<open>Primary\<close> the command line contains
  \<^verbatim>\<open>/SetValue "Primary" 60 17\<close>. Every macOS dispatch with \<open>v = 15\<close> runs one command
  line, and it contains \<^verbatim>\<open>set input 15\<close>. Both copies of the dispatcher agree.
\<close>

theorem dispatch_command_lines:
  \<open>snd (switchInputWindows w v exePath m) =
      [''"'' @ exePath @ ''" /SetValue "'' @ m @ ''" 60 '' @ showNumber v]
   \<and> includesStr (''"'' @ exePath @ ''" /SetValue "'' @ m @ ''" 60 '' @ showNumber v)
        (''/SetValue "'' @ m @ ''" 60 '' @ showNumber v)
   \<and> snd (switchInputWindowsToMac w v m exePath) =
      [''"'' @ exePath @ ''" /SetValue "'' @ m @ ''" 60 '' @ showNumber v]
   \<and> snd (switchInputWindows w (Some 17) exePath ''Primary'') =
      [''"'' @ exePath @ ''" /SetValue "Primary" 60 17'']
   \<and> includesStr (''"'' @ exePath @ ''" /SetValue "Primary" 60 17'') ''/SetValue "Primary" 60 17''
   \<and> snd (switchInputMacOS w (Some 15)) = [''m1ddc set input 15'']
   \<and> includesStr ''m1ddc set input 15'' ''set input 15''
   \<and> snd (switchInputMacToWindows w (Some 15) exePath) = [''"'' @ exePath @ ''" set input 15'']
   \<and> includesStr (''"'' @ exePath @ ''" set input 15'') ''set input 15''\<close>
proof -
  have a: \<open>includesStr (''"'' @ exePath @ ''" /SetValue "'' @ m @ ''" 60 '' @ showNumber v)
        (''/SetValue "'' @ m @ ''" 60 '' @ showNumber v)\<close>
    using includesStr_suffix[of \<open>''"'' @ exePath @ ''" ''\<close> \<open>''/SetValue "'' @ m @ ''" 60 '' @ showNumber v\<close>]
    by simp
  have b: \<open>includesStr (''"'' @ exePath @ ''" /SetValue "Primary" 60 17'') ''/SetValue "Primary" 60 17''\<close>
    using includesStr_suffix[of \<open>''"'' @ exePath @ ''" ''\<close> \<open>''/SetValue "Primary" 60 17''\<close>]
    by simp
  have c: \<open>includesStr ''m1ddc set input 15'' ''set input 15''\<close>
    using includesStr_suffix[of \<open>''m1ddc ''\<close> \<open>''set input 15''\<close>] by simp
  have d: \<open>includesStr (''"'' @ exePath @ ''" set input 15'') ''set input 15''\<close>
    using includesStr_suffix[of \<open>''"'' @ exePath @ ''" ''\<close> \<open>''set input 15''\<close>] by simp
  have e: \<open>snd (switchInputWindows w (Some 17) exePath ''Primary'') =
      [''"'' @ exePath @ ''" /SetValue "Primary" 60 17'']\<close>
    by (simp add: switchInputWindows_cmds showNumber_17)
  have f: \<open>snd (switchInputMacOS w (Some 15)) = [''m1ddc set input 15'']\<close>
    by (simp add: switchInputMacOS_cmds showNumber_15)
  have g: \<open>snd (switchInputMacToWindows w (Some 15) exePath) = [''"'' @ exePath @ ''" set input 15'']\<close>
    by (simp add: switchInputMacToWindows_cmds showNumber_15)
  show ?thesis
    using a b c d e f g switchInputWindows_cmds[of w v exePath m]
      switchInputWindowsToMac_cmds[of w v m exePath]
    by blast
qed

text \<open>
  C1 as the specification states it fails: the dispatch for \<^verbatim>\<open>Primary\<close> and 17 on the
  Windows host runs one command line, and \<^verbatim>\<open>/SetValue "Primary" 96 17\<close> does not occur in
  it.
\<close>

theorem dispatch_command_line_96_counterexample:
  \<open>snd (switchInputWindows win_host (Some 17) ''C:/Tools/ControlMyMonitor.exe'' ''Primary'') =
      [''"C:/Tools/ControlMyMonitor.exe" /SetValue "Primary" 60 17'']
   \<and> \<not> includesStr ''"C:/Tools/ControlMyMonitor.exe" /SetValue "Primary" 60 17''
          ''/SetValue "Primary" 96 17''\<close>
proof -
  have \<open>snd (switchInputWindows win_host (Some 17) ''C:/Tools/ControlMyMonitor.exe'' ''Primary'') =
      [''"C:/Tools/ControlMyMonitor.exe" /SetValue "Primary" 60 17'']\<close>
    by (simp add: switchInputWindows_cmds showNumber_17)
  moreover have \<open>\<not> includesStr ''"C:/Tools/ControlMyMonitor.exe" /SetValue "Primary" 60 17''
          ''/SetValue "Primary" 96 17''\<close>
    by simp
  ultimately show ?thesis by simp
qed

text \<open>
  C4. A dispatch reports success only when the external process exited with status 0.
  For each of the four functions that run the tool, the result is a success exactly when
  the process of its command line exits with status 0, so a non-zero exit, a process that
  cannot be started and a timeout all give a failure. The same holds for the
  \<^verbatim>\<open>ToastResult\<close> of the revised \<^verbatim>\<open>switchInput\<close>; the first \<^verbatim>\<open>switchInput\<close> reports
  success only after it has run one command, whose process exited with status 0.
\<close>

theorem success_only_on_exit_zero:
  \<open>(success (fst (switchInputMacOS w v)) \<longleftrightarrow>
       exitedZero (run w (''m1ddc set input '' @ showNumber v)))
   \<and> (success (fst (switchInputWindows w v exePath m)) \<longleftrightarrow>
       exitedZero (run w (''"'' @ exePath @ ''" /SetValue "'' @ m @ ''" 60 '' @ showNumber v)))
   \<and> (success (fst (switchInputMacToWindows w v exePath)) \<longleftrightarrow>
       exitedZero (run w (''"'' @ exePath @ ''" set input '' @ showNumber v)))
   \<and> (success (fst (switchInputWindowsToMac w v m exePath)) \<longleftrightarrow>
       exitedZero (run w (''"'' @ exePath @ ''" /SetValue "'' @ m @ ''" 60 '' @ showNumber v)))
   \<and> (fst (switchInput2 w platformOs v m exePath) ''status'' = Some (JStr ''success'') \<longleftrightarrow>
       exitedZero (run w (if platformOs = Some (JStr ''darwin'')
                          then ''"'' @ exePath @ ''" set input '' @ showNumber v
                          else ''"'' @ exePath @ ''" /SetValue "'' @ m @ ''" 60 '' @ showNumber v)))
   \<and> (success (fst (switchInput w v p m)) \<longrightarrow>
       (\<exists>cmd. snd (switchInput w v p m) = [cmd] \<and> exitedZero (run w cmd)))\<close>
  using switchInputMacOS_success[of w v] switchInputWindows_success[of w v exePath m]
    switchInputMacToWindows_success[of w v exePath] switchInputWindowsToMac_success[of w v m exePath]
    switchInput2_status[of w platformOs v m exePath] switchInput_success[of w v p m]
  by blast

text \<open>
  On the Windows host the first \<^verbatim>\<open>switchInput\<close> succeeds, having run one command whose
  process exited with status 0; when that process exits with status 1 instead, the result
  is a failure.
\<close>

theorem success_only_on_exit_zero_witness:
  \<open>success (fst (switchInput win_host (Some 17) (Some ''C:/Tools/ControlMyMonitor.exe'') ''Primary''))
   \<and> (\<exists>cmd. snd (switchInput win_host (Some 17) (Some ''C:/Tools/ControlMyMonitor.exe'') ''Primary'') = [cmd]
           \<and> exitedZero (run win_host cmd))
   \<and> \<not> exitedZero (run (with_process win_host
           ''"C:/Tools/ControlMyMonitor.exe" /SetValue "Primary" 60 17'' (Exited 1 [] ''Command failed''))
         (''"'' @ ''C:/Tools/ControlMyMonitor.exe'' @ ''" /SetValue "'' @ ''Primary'' @ ''" 60 '' @ showNumber (Some 17)))
   \<and> \<not> success (fst (switchInputWindows (with_process win_host
           ''"C:/Tools/ControlMyMonitor.exe" /SetValue "Primary" 60 17'' (Exited 1 [] ''Command failed''))
         (Some 17) ''C:/Tools/ControlMyMonitor.exe'' ''Primary''))\<close>
proof -
  let ?p = \<open>''C:/Tools/ControlMyMonitor.exe''\<close>
  let ?w = \<open>with_process win_host ''"C:/Tools/ControlMyMonitor.exe" /SetValue "Primary" 60 17''
              (Exited 1 [] ''Command failed'')\<close>
  have pre: \<open>validatePrerequisites win_host (Some ?p) = None\<close>
    by (simp add: validatePrerequisites_def detectPlatform_def win_host_def
        isControlMyMonitorInstalled_def trim_def isWhiteSpace_def)
  have osw: \<open>os (detectPlatform win_host) = Win32\<close>
    by (simp add: detectPlatform_def win_host_def)
  have ez: \<open>exitedZero (run win_host c)\<close> for c
    by (simp add: win_host_def exitedZero_def)
  have s: \<open>success (fst (switchInput win_host (Some 17) (Some ?p) ''Primary''))\<close>
    using pre osw ez by (simp add: switchInput_def switchInputWindows_success toStringS_def)
  have n: \<open>\<not> exitedZero (run ?w (''"'' @ ?p @ ''" /SetValue "'' @ ''Primary'' @ ''" 60 '' @ showNumber (Some 17)))\<close>
    by (simp add: with_process_def exitedZero_def showNumber_17)
  from success_only_on_exit_zero[of win_host \<open>Some 17\<close> ?p \<open>''Primary''\<close> None \<open>Some ?p\<close>] s
  have e: \<open>\<exists>cmd. snd (switchInput win_host (Some 17) (Some ?p) ''Primary'') = [cmd] \<and> exitedZero (run win_host cmd)\<close>
    by blast
  from success_only_on_exit_zero[of ?w \<open>Some 17\<close> ?p \<open>''Primary''\<close> None None] n
  have f: \<open>\<not> success (fst (switchInputWindows ?w (Some 17) ?p ''Primary''))\<close>
    by blast
  show ?thesis using s e n f by blast
qed

text \<open>
  C5 (as amended). When the process of a dispatch fails with error text \<open>e\<close>: on macOS the
  message is the connectivity hint if \<open>e\<close> contains \<^verbatim>\<open>No displays found\<close>, otherwise the
  cable and DDC-setting hint if \<open>e\<close> contains \<^verbatim>\<open>DDC communication failed\<close>, otherwise
  \<^verbatim>\<open>m1ddc error: \<close> followed by \<open>e\<close>; on Windows no text is matched and the message is
  always \<^verbatim>\<open>ControlMyMonitor error: \<close> followed by \<open>e\<close>. Both copies of the dispatcher agree.
\<close>

theorem failure_messages:
  \<open>(\<forall>e. execSync (run w (''m1ddc set input '' @ showNumber v)) = Inl e \<longrightarrow>
        fst (switchInputMacOS w v) =
          \<lparr>success = False,
           message =
             (if includesStr e ''No displays found''
              then ''No DDC/CI compatible displays found. Is the monitor connected and awake?''
              else if includesStr e ''DDC communication failed''
              then ''DDC/CI communication failed. Try a different cable or check monitor DDC settings.''
              else ''m1ddc error: '' @ e),
           rawOutput = None\<rparr>)
   \<and> (\<forall>e. execSync (run w (''"'' @ exePath @ ''" set input '' @ showNumber v)) = Inl e \<longrightarrow>
        fst (switchInputMacToWindows w v exePath) =
          \<lparr>success = False,
           message =
             (if includesStr e ''No displays found''
              then ''No DDC/CI compatible displays found. Is the monitor connected and awake?''
              else if includesStr e ''DDC communication failed''
              then ''DDC/CI communication failed. Try a different cable or check monitor DDC settings.''
              else ''m1ddc error: '' @ e),
           rawOutput = None\<rparr>)
   \<and> (\<forall>e. execSync (run w (''"'' @ exePath @ ''" /SetValue "'' @ m @ ''" 60 '' @ showNumber v)) = Inl e \<longrightarrow>
        fst (switchInputWindows w v exePath m) =
          \<lparr>success = False, message = ''ControlMyMonitor error: '' @ e, rawOutput = None\<rparr>
        \<and> fst (switchInputWindowsToMac w v m exePath) =
          \<lparr>success = False, message = ''ControlMyMonitor error: '' @ e, rawOutput = None\<rparr>)\<close>
  by (simp add: switchInputMacOS_def switchInputMacToWindows_def switchInputWindows_def
      switchInputWindowsToMac_def Let_def showNumber_VCP)

text \<open>
  A Mac whose m1ddc exits with status 1 and the error text
  \<^verbatim>\<open>DDC communication failed: timeout\<close>: the message is the cable and DDC-setting hint.
\<close>

theorem failure_messages_witness:
  \<open>execSync (run (with_process (mac_host ''Apple M2'') ''m1ddc set input 17''
                   (Exited 1 [] ''DDC communication failed: timeout''))
       (''m1ddc set input '' @ showNumber (Some 17))) = Inl ''DDC communication failed: timeout''
   \<and> fst (switchInputMacOS (with_process (mac_host ''Apple M2'') ''m1ddc set input 17''
                   (Exited 1 [] ''DDC communication failed: timeout'')) (Some 17)) =
       \<lparr>success = False,
        message = ''DDC/CI communication failed. Try a different cable or check monitor DDC settings.'',
        rawOutput = None\<rparr>\<close>
proof -
  let ?w = \<open>with_process (mac_host ''Apple M2'') ''m1ddc set input 17''
              (Exited 1 [] ''DDC communication failed: timeout'')\<close>
  have h: \<open>execSync (run ?w (''m1ddc set input '' @ showNumber (Some 17))) =
             Inl ''DDC communication failed: timeout''\<close>
    by (simp add: with_process_def execSync_def showNumber_17)
  have i: \<open>\<not> includesStr ''DDC communication failed: timeout'' ''No displays found''\<close>
    by simp
  have j: \<open>includesStr ''DDC communication failed: timeout'' ''DDC communication failed''\<close>
    by simp
  from failure_messages[of ?w \<open>Some 17\<close> \<open>[]\<close> \<open>[]\<close>] h i j
  show ?thesis by simp
qed

text \<open>
  C5 as the specification states it fails on Windows: the same error text is passed
  through behind the prefix, and the message gives no cable or DDC-setting guidance.
\<close>

theorem failure_message_windows_counterexample:
  \<open>run (with_process win_host ''"C:/Tools/ControlMyMonitor.exe" /SetValue "Primary" 60 17''
          (Exited 1 [] ''DDC communication failed: timeout''))
       ''"C:/Tools/ControlMyMonitor.exe" /SetValue "Primary" 60 17''
     = Exited 1 [] ''DDC communication failed: timeout''
   \<and> fst (switchInputWindows
         (with_process win_host ''"C:/Tools/ControlMyMonitor.exe" /SetValue "Primary" 60 17''
            (Exited 1 [] ''DDC communication failed: timeout''))
         (Some 17) ''C:/Tools/ControlMyMonitor.exe'' ''Primary'') =
       \<lparr>success = False,
        message = ''ControlMyMonitor error: DDC communication failed: timeout'',
        rawOutput = None\<rparr>
   \<and> \<not> includesStr ''ControlMyMonitor error: DDC communication failed: timeout'' ''cable''\<close>
proof -
  let ?w = \<open>with_process win_host ''"C:/Tools/ControlMyMonitor.exe" /SetValue "Primary" 60 17''
              (Exited 1 [] ''DDC communication failed: timeout'')\<close>
  have r: \<open>run ?w ''"C:/Tools/ControlMyMonitor.exe" /SetValue "Primary" 60 17''
             = Exited 1 [] ''DDC communication failed: timeout''\<close>
    by (simp add: with_process_def)
  then have \<open>fst (switchInputWindows ?w (Some 17) ''C:/Tools/ControlMyMonitor.exe'' ''Primary'') =
       \<lparr>success = False,
        message = ''ControlMyMonitor error: DDC communication failed: timeout'',
        rawOutput = None\<rparr>\<close>
    by (simp add: switchInputWindows_def Let_def showNumber_VCP showNumber_17 execSync_def)
  moreover have \<open>\<not> includesStr ''ControlMyMonitor error: DDC communication failed: timeout'' ''cable''\<close>
    by simp
  ultimately show ?thesis using r by simp
qed

section \<open>Claims about discovery\<close>

text \<open>
  C6 (as amended). Discovery survives the failure of its secondary query. On Windows,
  when \<^verbatim>\<open>/smonitors\<close> succeeds and \<^verbatim>\<open>/GetValue\<close> fails, the report is a success with no
  current value, and so it is when the output of \<^verbatim>\<open>/GetValue\<close> is not a number. On
  macOS, when \<^verbatim>\<open>get input\<close> succeeds and \<^verbatim>\<open>display list\<close> fails, the report is a success
  whose text holds the placeholder \<^verbatim>\<open>(Could not retrieve display list)\<close>, and its current
  value is what \<^verbatim>\<open>get input\<close> printed: set when that parses as an integer, unset when
  it does not.
\<close>

theorem discovery_tolerates_secondary_failure:
  \<open>(\<forall>monitorInfo e.
       execSync (run w (''"'' @ exePath @ ''" /smonitors'')) = Inr monitorInfo \<and>
       execSync (run w (''"'' @ exePath @ ''" /GetValue "'' @ m @ ''" 60'')) = Inl e \<longrightarrow>
         success_d (fst (discoverInputsWindows w exePath m)) \<and>
         currentValue (fst (discoverInputsWindows w exePath m)) = None \<and>
         error_d (fst (discoverInputsWindows w exePath m)) = None)
   \<and> (\<forall>monitorInfo inputInfo.
       execSync (run w (''"'' @ exePath @ ''" /smonitors'')) = Inr monitorInfo \<and>
       execSync (run w (''"'' @ exePath @ ''" /GetValue "'' @ m @ ''" 60'')) = Inr inputInfo \<and>
       parseInt (trim inputInfo) = None \<longrightarrow>
         success_d (fst (discoverInputsWindows w exePath m)) \<and>
         currentValue (fst (discoverInputsWindows w exePath m)) = None)
   \<and> (\<forall>currentInput e.
       execSync (run w ''m1ddc get input'') = Inr currentInput \<and>
       execSync (run w ''m1ddc display list'') = Inl e \<longrightarrow>
         success_d (fst (discoverInputsMacOS w)) \<and>
         currentValue (fst (discoverInputsMacOS w)) = parseInt (trim currentInput) \<and>
         (\<exists>info. availableInfo (fst (discoverInputsMacOS w)) = Some info \<and>
                 includesStr info ''(Could not retrieve display list)''))
   \<and> (\<forall>currentInput.
       execSync (run w ''m1ddc get input'') = Inr currentInput \<and>
       parseInt (trim currentInput) = None \<longrightarrow>
         success_d (fst (discoverInputsMacOS w)) \<and>
         currentValue (fst (discoverInputsMacOS w)) = None)\<close>
proof (intro conjI allI impI)
  fix monitorInfo e
  assume \<open>execSync (run w (''"'' @ exePath @ ''" /smonitors'')) = Inr monitorInfo \<and>
       execSync (run w (''"'' @ exePath @ ''" /GetValue "'' @ m @ ''" 60'')) = Inl e\<close>
  then show \<open>success_d (fst (discoverInputsWindows w exePath m))\<close>
    \<open>currentValue (fst (discoverInputsWindows w exePath m)) = None\<close>
    \<open>error_d (fst (discoverInputsWindows w exePath m)) = None\<close>
    by (simp_all add: discoverInputsWindows_def Let_def showNumber_VCP)
next
  fix monitorInfo inputInfo
  assume \<open>execSync (run w (''"'' @ exePath @ ''" /smonitors'')) = Inr monitorInfo \<and>
       execSync (run w (''"'' @ exePath @ ''" /GetValue "'' @ m @ ''" 60'')) = Inr inputInfo \<and>
       parseInt (trim inputInfo) = None\<close>
  then show \<open>success_d (fst (discoverInputsWindows w exePath m))\<close>
    \<open>currentValue (fst (discoverInputsWindows w exePath m)) = None\<close>
    by (simp_all add: discoverInputsWindows_def Let_def showNumber_VCP isNaN_def)
next
  fix currentInput e
  assume h: \<open>execSync (run w ''m1ddc get input'') = Inr currentInput \<and>
       execSync (run w ''m1ddc display list'') = Inl e\<close>
  then show \<open>success_d (fst (discoverInputsMacOS w))\<close>
    \<open>currentValue (fst (discoverInputsMacOS w)) = parseInt (trim currentInput)\<close>
    by (simp_all add: discoverInputsMacOS_def Let_def isNaN_def)
  let ?ls = \<open>[''=== macOS DDC/CI Discovery (m1ddc) ==='',
                  [],
                  ''Current Input Value (VCP 0x60): '' @ showNumber (parseInt (trim currentInput)),
                  [],
                  ''Common Input Values:'',
                  ''  15 (0x0F) = DisplayPort'',
                  ''  17 (0x11) = HDMI-1'',
                  ''  18 (0x12) = HDMI-2'',
                  ''  (Values vary by monitor model)'',
                  [],
                  ''Detected Displays:'',
                  ''(Could not retrieve display list)'',
                  [],
                  ''Tip: Switch to each input manually and run this command to discover the value:'',
                  ''  m1ddc get input'']\<close>
  have \<open>availableInfo (fst (discoverInputsMacOS w)) = Some (joinLines ?ls)\<close>
    using h by (simp add: discoverInputsMacOS_def Let_def del: joinLines.simps)
  moreover have \<open>includesStr (joinLines ?ls) ''(Could not retrieve display list)''\<close>
    by (rule includesStr_joinLines) simp
  ultimately show \<open>\<exists>info. availableInfo (fst (discoverInputsMacOS w)) = Some info \<and>
                 includesStr info ''(Could not retrieve display list)''\<close>
    by blast
next
  fix currentInput
  assume \<open>execSync (run w ''m1ddc get input'') = Inr currentInput \<and>
       parseInt (trim currentInput) = None\<close>
  then show \<open>success_d (fst (discoverInputsMacOS w))\<close>
    \<open>currentValue (fst (discoverInputsMacOS w)) = None\<close>
    by (simp_all add: discoverInputsMacOS_def Let_def isNaN_def)
qed

text \<open>
  The four cases on the example hosts: \<^verbatim>\<open>/GetValue\<close> cannot be started, \<^verbatim>\<open>/GetValue\<close>
  prints nothing, \<^verbatim>\<open>display list\<close> times out, and \<^verbatim>\<open>get input\<close> prints nothing.
\<close>

theorem discovery_tolerates_secondary_failure_witness:
  \<open>success_d (fst (discoverInputsWindows
       (with_process win_host ''"C:/Tools/ControlMyMonitor.exe" /GetValue "Primary" 60'' (Threw ''spawn ENOENT''))
       ''C:/Tools/ControlMyMonitor.exe'' ''Primary''))
   \<and> currentValue (fst (discoverInputsWindows
       (with_process win_host ''"C:/Tools/ControlMyMonitor.exe" /GetValue "Primary" 60'' (Threw ''spawn ENOENT''))
       ''C:/Tools/ControlMyMonitor.exe'' ''Primary'')) = None
   \<and> success_d (fst (discoverInputsWindows win_host ''C:/Tools/ControlMyMonitor.exe'' ''Primary''))
   \<and> currentValue (fst (discoverInputsWindows win_host ''C:/Tools/ControlMyMonitor.exe'' ''Primary'')) = None
   \<and> success_d (fst (discoverInputsMacOS
       (with_process (mac_host ''Apple M2'') ''m1ddc display list'' (Threw ''spawnSync /bin/sh ETIMEDOUT''))))
   \<and> currentValue (fst (discoverInputsMacOS
       (with_process (mac_host ''Apple M2'') ''m1ddc display list'' (Threw ''spawnSync /bin/sh ETIMEDOUT''))))
       = Some 15
   \<and> success_d (fst (discoverInputsMacOS
       (with_process (mac_host ''Apple M2'') ''m1ddc get input'' (Exited 0 [] []))))
   \<and> currentValue (fst (discoverInputsMacOS
       (with_process (mac_host ''Apple M2'') ''m1ddc get input'' (Exited 0 [] [])))) = None\<close>
proof -
  let ?p = \<open>''C:/Tools/ControlMyMonitor.exe''\<close>
  let ?w1 = \<open>with_process win_host ''"C:/Tools/ControlMyMonitor.exe" /GetValue "Primary" 60''
               (Threw ''spawn ENOENT'')\<close>
  let ?w3 = \<open>with_process (mac_host ''Apple M2'') ''m1ddc display list''
               (Threw ''spawnSync /bin/sh ETIMEDOUT'')\<close>
  let ?w4 = \<open>with_process (mac_host ''Apple M2'') ''m1ddc get input'' (Exited 0 [] [])\<close>
  have a1: \<open>execSync (run ?w1 (''"'' @ ?p @ ''" /smonitors'')) = Inr []\<close>
    by (simp add: with_process_def win_host_def execSync_def)
  have b1: \<open>execSync (run ?w1 (''"'' @ ?p @ ''" /GetValue "'' @ ''Primary'' @ ''" 60'')) = Inl ''spawn ENOENT''\<close>
    by (simp add: with_process_def execSync_def)
  have a2: \<open>execSync (run win_host (''"'' @ ?p @ ''" /smonitors'')) = Inr []\<close>
    by (simp add: win_host_def execSync_def)
  have b2: \<open>execSync (run win_host (''"'' @ ?p @ ''" /GetValue "'' @ ''Primary'' @ ''" 60'')) = Inr []\<close>
    by (simp add: win_host_def execSync_def)
  have a3: \<open>execSync (run ?w3 ''m1ddc get input'') = Inr ''15\<newline>''\<close>
    by (simp add: with_process_def mac_host_def execSync_def sysctl_command_def sysctl_command2_def)
  have b3: \<open>execSync (run ?w3 ''m1ddc display list'') = Inl ''spawnSync /bin/sh ETIMEDOUT''\<close>
    by (simp add: with_process_def execSync_def)
  have a4: \<open>execSync (run ?w4 ''m1ddc get input'') = Inr []\<close>
    by (simp add: with_process_def execSync_def)
  note t1 = discovery_tolerates_secondary_failure[of ?w1 ?p \<open>''Primary''\<close>]
  note t2 = discovery_tolerates_secondary_failure[of win_host ?p \<open>''Primary''\<close>]
  note t3 = discovery_tolerates_secondary_failure[of ?w3 ?p \<open>''Primary''\<close>]
  note t4 = discovery_tolerates_secondary_failure[of ?w4 ?p \<open>''Primary''\<close>]
  have c1: \<open>success_d (fst (discoverInputsWindows ?w1 ?p ''Primary'')) \<and>
            currentValue (fst (discoverInputsWindows ?w1 ?p ''Primary'')) = None\<close>
    using t1 a1 b1 by blast
  have c2: \<open>success_d (fst (discoverInputsWindows win_host ?p ''Primary'')) \<and>
            currentValue (fst (discoverInputsWindows win_host ?p ''Primary'')) = None\<close>
    using t2 a2 b2 parseInt_empty by blast
  have c3: \<open>success_d (fst (discoverInputsMacOS ?w3)) \<and>
            currentValue (fst (discoverInputsMacOS ?w3)) = Some 15\<close>
    using t3 a3 b3 parseInt_15 by metis
  have c4: \<open>success_d (fst (discoverInputsMacOS ?w4)) \<and>
            currentValue (fst (discoverInputsMacOS ?w4)) = None\<close>
    using t4 a4 parseInt_empty by blast
  show ?thesis using c1 c2 c3 c4 by blast
qed

text \<open>
  C6 as the specification states it fails on macOS: \<^verbatim>\<open>get input\<close> prints 15, only
  \<^verbatim>\<open>display list\<close> fails, and the successful report carries the current value 15.
\<close>

theorem discovery_macos_value_set_counterexample:
  \<open>execSync (run (with_process (mac_host ''Apple M2'') ''m1ddc display list'' (Threw ''spawnSync /bin/sh ETIMEDOUT''))
       ''m1ddc get input'') = Inr ''15\<newline>''
   \<and> execSync (run (with_process (mac_host ''Apple M2'') ''m1ddc display list'' (Threw ''spawnSync /bin/sh ETIMEDOUT''))
       ''m1ddc display list'') = Inl ''spawnSync /bin/sh ETIMEDOUT''
   \<and> success_d (fst (discoverInputsMacOS
       (with_process (mac_host ''Apple M2'') ''m1ddc display list'' (Threw ''spawnSync /bin/sh ETIMEDOUT''))))
   \<and> currentValue (fst (discoverInputsMacOS
       (with_process (mac_host ''Apple M2'') ''m1ddc display list'' (Threw ''spawnSync /bin/sh ETIMEDOUT''))))
       = Some 15\<close>
proof -
  let ?w = \<open>with_process (mac_host ''Apple M2'') ''m1ddc display list''
              (Threw ''spawnSync /bin/sh ETIMEDOUT'')\<close>
  have a: \<open>execSync (run ?w ''m1ddc get input'') = Inr ''15\<newline>''\<close>
    by (simp add: with_process_def mac_host_def execSync_def sysctl_command_def sysctl_command2_def)
  have b: \<open>execSync (run ?w ''m1ddc display list'') = Inl ''spawnSync /bin/sh ETIMEDOUT''\<close>
    by (simp add: with_process_def execSync_def)
  have c: \<open>success_d (fst (discoverInputsMacOS ?w))\<close>
    using a b by (simp add: discoverInputsMacOS_def Let_def del: joinLines.simps)
  have d: \<open>currentValue (fst (discoverInputsMacOS ?w)) = Some 15\<close>
    using a b parseInt_15 by (simp add: discoverInputsMacOS_def Let_def isNaN_def del: joinLines.simps)
  show ?thesis using a b c d by blast
qed

section \<open>Claims about platform classification\<close>

text \<open>
  C7. Platform classification never fails. Whatever the CPU-identification utility does,
  \<^verbatim>\<open>detectPlatform\<close> returns a \<^verbatim>\<open>PlatformInfo\<close>: when the utility cannot be run or is
  killed at its timeout, when it exits with a non-zero status, and when it prints text
  that names neither Intel nor Apple, the generation is \<^verbatim>\<open>unknown\<close>, and the value
  returned is the one written out below. The only call that can throw sits in the
  \<^verbatim>\<open>try\<close> block, whose exceptional exit the \<^verbatim>\<open>catch\<close> turns into \<^verbatim>\<open>unknown\<close>.
\<close>

theorem classification_absorbs_failure:
  assumes \<open>(\<exists>e. run w sysctl_command = Threw e)
         \<or> (\<exists>st out err. run w sysctl_command = Exited st out err \<and> st \<noteq> 0)
         \<or> (\<exists>out err. run w sysctl_command = Exited 0 out err
                \<and> \<not> includesStr (toLowerCase (trim out)) ''intel''
                \<and> \<not> includesStr (toLowerCase (trim out)) ''apple'')\<close>
  shows \<open>detectAppleSiliconGeneration w = Unknown
       \<and> detectPlatform w =
           \<lparr>os = (if os_platform w = ''win32'' then Win32
                  else if os_platform w = ''darwin'' then Darwin else Unsupported),
            isAppleSilicon = (os_platform w \<noteq> ''win32'' \<and> os_platform w = ''darwin''),
            appleChipGen = Unknown,
            m1ddcSupportsBuiltinHdmi = False\<rparr>\<close>
proof -
  have gen: \<open>detectAppleSiliconGeneration w = Unknown\<close>
    using assms
  proof (elim disjE exE conjE)
    fix e assume \<open>run w sysctl_command = Threw e\<close>
    then have \<open>execSync (run w sysctl_command) = Inl e\<close> by (simp add: execSync_def)
    then show ?thesis by (simp add: detectAppleSiliconGeneration_def detect_catch)
  next
    fix st out err assume \<open>run w sysctl_command = Exited st out err\<close> \<open>st \<noteq> 0\<close>
    then have \<open>execSync (run w sysctl_command) = Inl err\<close> by (simp add: execSync_def)
    then show ?thesis by (simp add: detectAppleSiliconGeneration_def detect_catch)
  next
    fix out err
    assume r: \<open>run w sysctl_command = Exited 0 out err\<close>
      and ni: \<open>\<not> includesStr (toLowerCase (trim out)) ''intel''\<close>
      and na: \<open>\<not> includesStr (toLowerCase (trim out)) ''apple''\<close>
    have ex: \<open>execSync (run w sysctl_command) = Inr out\<close> using r by (simp add: execSync_def)
    have \<open>matchAppleM (trim out) = None\<close>
      using na matchAppleM_includes_apple by (cases \<open>matchAppleM (trim out)\<close>) auto
    then show ?thesis
      using detect_try_Inr[OF ex] ni na by (simp add: detectAppleSiliconGeneration_def)
  qed
  then show ?thesis by (simp add: detectPlatform_def)
qed

theorem classification_absorbs_failure_witness:
  \<open>run (with_process (mac_host ''Apple M2'') sysctl_command (Threw ''spawnSync /bin/sh ETIMEDOUT''))
       sysctl_command = Threw ''spawnSync /bin/sh ETIMEDOUT''
   \<and> appleChipGen (detectPlatform
         (with_process (mac_host ''Apple M2'') sysctl_command (Threw ''spawnSync /bin/sh ETIMEDOUT'')))
       = Unknown
   \<and> run (with_process (mac_host ''Apple M2'') sysctl_command (Exited 1 [] ''Command failed''))
       sysctl_command = Exited 1 [] ''Command failed''
   \<and> appleChipGen (detectPlatform
         (with_process (mac_host ''Apple M2'') sysctl_command (Exited 1 [] ''Command failed'')))
       = Unknown
   \<and> run (mac_host ''Virtual CPU'') sysctl_command = Exited 0 ''Virtual CPU\<newline>'' []
   \<and> appleChipGen (detectPlatform (mac_host ''Virtual CPU'')) = Unknown\<close>
proof -
  let ?w1 = \<open>with_process (mac_host ''Apple M2'') sysctl_command (Threw ''spawnSync /bin/sh ETIMEDOUT'')\<close>
  let ?w2 = \<open>with_process (mac_host ''Apple M2'') sysctl_command (Exited 1 [] ''Command failed'')\<close>
  let ?w3 = \<open>mac_host ''Virtual CPU''\<close>
  have r1: \<open>run ?w1 sysctl_command = Threw ''spawnSync /bin/sh ETIMEDOUT''\<close>
    by (simp add: with_process_def)
  have r2: \<open>run ?w2 sysctl_command = Exited 1 [] ''Command failed''\<close>
    by (simp add: with_process_def)
  have r3: \<open>run ?w3 sysctl_command = Exited 0 ''Virtual CPU\<newline>'' []\<close>
    by (simp add: mac_host_def)
  have t3: \<open>\<not> includesStr (toLowerCase (trim ''Virtual CPU\<newline>'')) ''intel''
          \<and> \<not> includesStr (toLowerCase (trim ''Virtual CPU\<newline>'')) ''apple''\<close>
    by (simp add: trim_def isWhiteSpace_def toLowerCase_def lowerChar_def)
  have g1: \<open>appleChipGen (detectPlatform ?w1) = Unknown\<close>
    using classification_absorbs_failure[of ?w1] r1 by simp
  have g2: \<open>appleChipGen (detectPlatform ?w2) = Unknown\<close>
    using classification_absorbs_failure[of ?w2] r2 by simp
  have g3: \<open>appleChipGen (detectPlatform ?w3) = Unknown\<close>
    using classification_absorbs_failure[of ?w3] r3 t3 by simp
  show ?thesis using r1 r2 r3 g1 g2 g3 by simp
qed

text \<open>
  C8 (as amended). For every brand string the utility returns, after trimming: if it
  contains \<^verbatim>\<open>intel\<close> in any letter case the generation is Intel; otherwise, if
  \<^verbatim>\<open>/Apple M(\\d+)/i\<close> matches, the generation is M2-or-later when the number is at least
  2 and M1 when it is smaller; otherwise, if it contains \<^verbatim>\<open>apple\<close> in any letter case,
  M2-or-later; otherwise unknown. On macOS this is the generation \<^verbatim>\<open>detectPlatform\<close>
  reports, and \<^verbatim>\<open>m1ddcSupportsBuiltinHdmi\<close> is true exactly when the generation is
  M2-or-later: when the text does not name Intel and either the pattern matches with a
  number of at least 2 or, the pattern not matching, the text names Apple.
  \<^verbatim>\<open>isAppleSilicon\<close> is true exactly when the text does not name Intel.
\<close>

theorem generation_from_brand_string:
  assumes \<open>execSync (run w sysctl_command) = Inr out\<close>
  shows \<open>detectAppleSiliconGeneration w =
           (let brand = trim out in
            if includesStr (toLowerCase brand) ''intel'' then Intel
            else case matchAppleM brand of
                   Some ds \<Rightarrow> if 2 \<le> digitsValue ds then M2_or_later else M1
                 | None \<Rightarrow> if includesStr (toLowerCase brand) ''apple'' then M2_or_later
                           else Unknown)
         \<and> (m1ddcSupportsBuiltinHdmi (detectPlatform w) \<longleftrightarrow>
              appleChipGen (detectPlatform w) = M2_or_later)
         \<and> (os_platform w = ''darwin'' \<longrightarrow>
              os (detectPlatform w) = Darwin
              \<and> appleChipGen (detectPlatform w) =
                 (let brand = trim out in
                  if includesStr (toLowerCase brand) ''intel'' then Intel
                  else case matchAppleM brand of
                         Some ds \<Rightarrow> if 2 \<le> digitsValue ds then M2_or_later else M1
                       | None \<Rightarrow> if includesStr (toLowerCase brand) ''apple'' then M2_or_later
                                 else Unknown)
              \<and> (m1ddcSupportsBuiltinHdmi (detectPlatform w) \<longleftrightarrow>
                   \<not> includesStr (toLowerCase (trim out)) ''intel''
                   \<and> (case matchAppleM (trim out) of
                        Some ds \<Rightarrow> 2 \<le> digitsValue ds
                      | None \<Rightarrow> includesStr (toLowerCase (trim out)) ''apple''))
              \<and> (isAppleSilicon (detectPlatform w) \<longleftrightarrow>
                   \<not> includesStr (toLowerCase (trim out)) ''intel''))\<close>
proof -
  let ?gen = \<open>let brand = trim out in
            if includesStr (toLowerCase brand) ''intel'' then Intel
            else case matchAppleM brand of
                   Some ds \<Rightarrow> if 2 \<le> digitsValue ds then M2_or_later else M1
                 | None \<Rightarrow> if includesStr (toLowerCase brand) ''apple'' then M2_or_later
                           else Unknown\<close>
  have g: \<open>detectAppleSiliconGeneration w = ?gen\<close>
    using detect_try_Inr[OF assms] by (simp add: detectAppleSiliconGeneration_def)
  have m2: \<open>?gen = M2_or_later \<longleftrightarrow>
              \<not> includesStr (toLowerCase (trim out)) ''intel''
              \<and> (case matchAppleM (trim out) of
                   Some ds \<Rightarrow> 2 \<le> digitsValue ds
                 | None \<Rightarrow> includesStr (toLowerCase (trim out)) ''apple'')\<close>
    by (simp add: Let_def split: option.split)
  have ni: \<open>?gen \<noteq> Intel \<longleftrightarrow> \<not> includesStr (toLowerCase (trim out)) ''intel''\<close>
    by (simp add: Let_def split: option.split)
  have d: \<open>os (detectPlatform w) = Darwin
      \<and> appleChipGen (detectPlatform w) = ?gen
      \<and> (m1ddcSupportsBuiltinHdmi (detectPlatform w) \<longleftrightarrow>
           \<not> includesStr (toLowerCase (trim out)) ''intel''
           \<and> (case matchAppleM (trim out) of
                Some ds \<Rightarrow> 2 \<le> digitsValue ds
              | None \<Rightarrow> includesStr (toLowerCase (trim out)) ''apple''))
      \<and> (isAppleSilicon (detectPlatform w) \<longleftrightarrow>
           \<not> includesStr (toLowerCase (trim out)) ''intel'')\<close>
    if darwin: \<open>os_platform w = ''darwin''\<close>
  proof -
    have a: \<open>os (detectPlatform w) = Darwin\<close>
      and b: \<open>appleChipGen (detectPlatform w) = detectAppleSiliconGeneration w\<close>
      and c: \<open>m1ddcSupportsBuiltinHdmi (detectPlatform w) = (detectAppleSiliconGeneration w = M2_or_later)\<close>
      and e: \<open>isAppleSilicon (detectPlatform w) = (detectAppleSiliconGeneration w \<noteq> Intel)\<close>
      by (simp_all add: detectPlatform_darwin[OF darwin])
    show ?thesis
      unfolding a b c e g using m2 ni by blast
  qed
  show ?thesis using g hdmi_iff_m2[of w] d by blast
qed

text \<open>
  The rule on three Macs: \<^verbatim>\<open>Apple M1 Pro\<close> is an M1 without the built-in HDMI switch,
  \<^verbatim>\<open>Apple M2\<close> is M2-or-later with it, and an Intel brand string is Intel, not Apple
  Silicon.
\<close>

theorem generation_from_brand_string_witness:
  \<open>execSync (run (mac_host ''Apple M1 Pro'') sysctl_command) = Inr ''Apple M1 Pro\<newline>''
   \<and> os_platform (mac_host ''Apple M1 Pro'') = ''darwin''
   \<and> detectAppleSiliconGeneration (mac_host ''Apple M1 Pro'') = M1
   \<and> appleChipGen (detectPlatform (mac_host ''Apple M1 Pro'')) = M1
   \<and> \<not> m1ddcSupportsBuiltinHdmi (detectPlatform (mac_host ''Apple M1 Pro''))
   \<and> isAppleSilicon (detectPlatform (mac_host ''Apple M1 Pro''))
   \<and> execSync (run (mac_host ''Apple M2'') sysctl_command) = Inr ''Apple M2\<newline>''
   \<and> os_platform (mac_host ''Apple M2'') = ''darwin''
   \<and> detectAppleSiliconGeneration (mac_host ''Apple M2'') = M2_or_later
   \<and> appleChipGen (detectPlatform (mac_host ''Apple M2'')) = M2_or_later
   \<and> m1ddcSupportsBuiltinHdmi (detectPlatform (mac_host ''Apple M2''))
   \<and> isAppleSilicon (detectPlatform (mac_host ''Apple M2''))
   \<and> execSync (run (mac_host ''Intel(R) Core(TM) i7'') sysctl_command) = Inr ''Intel(R) Core(TM) i7\<newline>''
   \<and> appleChipGen (detectPlatform (mac_host ''Intel(R) Core(TM) i7'')) = Intel
   \<and> \<not> m1ddcSupportsBuiltinHdmi (detectPlatform (mac_host ''Intel(R) Core(TM) i7''))
   \<and> \<not> isAppleSilicon (detectPlatform (mac_host ''Intel(R) Core(TM) i7''))\<close>
proof -
  let ?w1 = \<open>mac_host ''Apple M1 Pro''\<close>
  let ?w2 = \<open>mac_host ''Apple M2''\<close>
  let ?w3 = \<open>mac_host ''Intel(R) Core(TM) i7''\<close>
  have h1: \<open>execSync (run ?w1 sysctl_command) = Inr ''Apple M1 Pro\<newline>''\<close>
    using mac_host_sysctl[of \<open>''Apple M1 Pro''\<close>] by simp
  have h2: \<open>execSync (run ?w2 sysctl_command) = Inr ''Apple M2\<newline>''\<close>
    using mac_host_sysctl[of \<open>''Apple M2''\<close>] by simp
  have h3: \<open>execSync (run ?w3 sysctl_command) = Inr ''Intel(R) Core(TM) i7\<newline>''\<close>
    using mac_host_sysctl[of \<open>''Intel(R) Core(TM) i7''\<close>] by simp
  have d1: \<open>os_platform ?w1 = ''darwin''\<close> and d2: \<open>os_platform ?w2 = ''darwin''\<close>
    and d3: \<open>os_platform ?w3 = ''darwin''\<close>
    by (simp_all add: mac_host_def)
  have b1: \<open>\<not> includesStr (toLowerCase (trim ''Apple M1 Pro\<newline>'')) ''intel''\<close>
    and m1: \<open>matchAppleM (trim ''Apple M1 Pro\<newline>'') = Some ''1''\<close>
    by (simp_all add: trim_def isWhiteSpace_def toLowerCase_def lowerChar_def isDigit_def)
  have b2: \<open>\<not> includesStr (toLowerCase (trim ''Apple M2\<newline>'')) ''intel''\<close>
    and m2: \<open>matchAppleM (trim ''Apple M2\<newline>'') = Some ''2''\<close>
    by (simp_all add: trim_def isWhiteSpace_def toLowerCase_def lowerChar_def isDigit_def)
  have b3: \<open>includesStr (toLowerCase (trim ''Intel(R) Core(TM) i7\<newline>'')) ''intel''\<close>
    by (simp add: trim_def isWhiteSpace_def toLowerCase_def lowerChar_def)
  have v: \<open>digitsValue ''1'' = 1\<close> \<open>digitsValue ''2'' = 2\<close>
    by (simp_all add: digitsValue_def)
  have c1: \<open>detectAppleSiliconGeneration ?w1 = M1
      \<and> appleChipGen (detectPlatform ?w1) = M1
      \<and> \<not> m1ddcSupportsBuiltinHdmi (detectPlatform ?w1)
      \<and> isAppleSilicon (detectPlatform ?w1)\<close>
    using generation_from_brand_string[OF h1] d1 b1 m1 v by (simp add: Let_def)
  have c2: \<open>detectAppleSiliconGeneration ?w2 = M2_or_later
      \<and> appleChipGen (detectPlatform ?w2) = M2_or_later
      \<and> m1ddcSupportsBuiltinHdmi (detectPlatform ?w2)
      \<and> isAppleSilicon (detectPlatform ?w2)\<close>
    using generation_from_brand_string[OF h2] d2 b2 m2 v by (simp add: Let_def)
  have c3: \<open>appleChipGen (detectPlatform ?w3) = Intel
      \<and> \<not> m1ddcSupportsBuiltinHdmi (detectPlatform ?w3)
      \<and> \<not> isAppleSilicon (detectPlatform ?w3)\<close>
    using generation_from_brand_string[OF h3] d3 b3 by (simp add: Let_def)
  show ?thesis using h1 h2 h3 d1 d2 c1 c2 c3 by blast
qed

text \<open>
  C8 as the specification states it fails on letter case: the brand string \<^verbatim>\<open>apple\<close>
  contains neither \<^verbatim>\<open>Intel\<close> nor \<^verbatim>\<open>Apple\<close> and does not match the pattern, so the
  stated rule gives unknown; the code lower-cases the text before it looks for
  \<^verbatim>\<open>apple\<close>, and \<^verbatim>\<open>detectPlatform\<close> reports M2-or-later with the built-in HDMI switch.
\<close>

theorem generation_literal_reading_counterexample:
  \<open>spec_generation ''apple'' = Some Unknown
   \<and> execSync (run (mac_host ''apple'') sysctl_command) = Inr ''apple\<newline>''
   \<and> detectAppleSiliconGeneration (mac_host ''apple'') = M2_or_later
   \<and> appleChipGen (detectPlatform (mac_host ''apple'')) = M2_or_later
   \<and> m1ddcSupportsBuiltinHdmi (detectPlatform (mac_host ''apple''))\<close>
proof -
  have a: \<open>spec_generation ''apple'' = Some Unknown\<close>
    by (simp add: spec_generation_def)
  have h: \<open>execSync (run (mac_host ''apple'') sysctl_command) = Inr ''apple\<newline>''\<close>
    using mac_host_sysctl[of \<open>''apple''\<close>] by simp
  have g: \<open>detectAppleSiliconGeneration (mac_host ''apple'') = M2_or_later\<close>
    using detect_try_Inr[OF h]
    by (simp add: detectAppleSiliconGeneration_def trim_def isWhiteSpace_def toLowerCase_def lowerChar_def)
  have d: \<open>os_platform (mac_host ''apple'') = ''darwin''\<close> by (simp add: mac_host_def)
  have p: \<open>appleChipGen (detectPlatform (mac_host ''apple'')) = M2_or_later\<close>
    \<open>m1ddcSupportsBuiltinHdmi (detectPlatform (mac_host ''apple''))\<close>
    using g by (simp_all add: detectPlatform_darwin[OF d])
  show ?thesis using a h g p by simp
qed

section \<open>Claims about validation\<close>

text \<open>
  C2 (as amended). In the switch-to-HDMI and switch-to-DisplayPort commands, whenever the
  configured input code fails integer parsing (\<^verbatim>\<open>parseInt\<close> gives \<^verbatim>\<open>NaN\<close>), the
  command shows the failure toast \<^verbatim>\<open>Invalid HDMI value\<close> or
  \<^verbatim>\<open>Invalid DisplayPort value\<close> and returns: the dispatcher is never invoked and no
  process is started. A code that parses as an integer, of either sign, passes this check
  and the command goes on to close the window.
\<close>

theorem unparsable_input_code_blocks_dispatch:
  \<open>(parseInt (toStringS (getPreferenceValues w ''hdmiValue'')) = None \<longrightarrow>
      Command_switch_to_hdmi w =
        [ShowToast Failure ''Invalid HDMI value''
           (''"'' @ toStringS (getPreferenceValues w ''hdmiValue'') @ ''" is not a valid number'')]
      \<and> (\<forall>cmd. ExecSync cmd \<notin> set (Command_switch_to_hdmi w)))
   \<and> (parseInt (toStringS (getPreferenceValues w ''displayportValue'')) = None \<longrightarrow>
      Command_switch_to_displayport w =
        [ShowToast Failure ''Invalid DisplayPort value''
           (''"'' @ toStringS (getPreferenceValues w ''displayportValue'') @ ''" is not a valid number'')]
      \<and> (\<forall>cmd. ExecSync cmd \<notin> set (Command_switch_to_displayport w)))
   \<and> (\<forall>n. parseInt (toStringS (getPreferenceValues w ''hdmiValue'')) = Some n \<longrightarrow>
        (\<exists>rest. Command_switch_to_hdmi w = CloseMainWindow # rest))
   \<and> (\<forall>n. parseInt (toStringS (getPreferenceValues w ''displayportValue'')) = Some n \<longrightarrow>
        (\<exists>rest. Command_switch_to_displayport w = CloseMainWindow # rest))\<close>
  by (simp add: Command_switch_to_hdmi_def Command_switch_to_displayport_def Let_def isNaN_def
      split_beta)

text \<open>
  The Mac with the HDMI code \<^verbatim>\<open>abc\<close>, with the HDMI code \<^verbatim>\<open>-5\<close>, and with no
  DisplayPort code under the name the command reads.
\<close>

theorem unparsable_input_code_blocks_dispatch_witness:
  \<open>parseInt (toStringS (getPreferenceValues
       (with_preference (mac_host ''Apple M2'') ''hdmiValue'' ''abc'') ''hdmiValue'')) = None
   \<and> Command_switch_to_hdmi (with_preference (mac_host ''Apple M2'') ''hdmiValue'' ''abc'') =
       [ShowToast Failure ''Invalid HDMI value'' ''"abc" is not a valid number'']
   \<and> parseInt (toStringS (getPreferenceValues
       (with_preference (mac_host ''Apple M2'') ''hdmiValue'' ''-5'') ''hdmiValue'')) = Some (- 5)
   \<and> (\<exists>rest. Command_switch_to_hdmi (with_preference (mac_host ''Apple M2'') ''hdmiValue'' ''-5'') =
               CloseMainWindow # rest)
   \<and> parseInt (toStringS (getPreferenceValues (mac_host ''Apple M2'') ''displayportValue'')) = None
   \<and> Command_switch_to_displayport (mac_host ''Apple M2'') =
       [ShowToast Failure ''Invalid DisplayPort value'' ''"undefined" is not a valid number'']
   \<and> parseInt (toStringS (getPreferenceValues
       (with_preference (mac_host ''Apple M2'') ''displayportValue'' ''15'') ''displayportValue'')) = Some 15
   \<and> (\<exists>rest. Command_switch_to_displayport
               (with_preference (mac_host ''Apple M2'') ''displayportValue'' ''15'') =
               CloseMainWindow # rest)\<close>
proof -
  let ?w1 = \<open>with_preference (mac_host ''Apple M2'') ''hdmiValue'' ''abc''\<close>
  let ?w2 = \<open>with_preference (mac_host ''Apple M2'') ''hdmiValue'' ''-5''\<close>
  let ?w3 = \<open>mac_host ''Apple M2''\<close>
  let ?w4 = \<open>with_preference (mac_host ''Apple M2'') ''displayportValue'' ''15''\<close>
  have p1: \<open>toStringS (getPreferenceValues ?w1 ''hdmiValue'') = ''abc''\<close>
    by (simp add: with_preference_def toStringS_def)
  have p2: \<open>toStringS (getPreferenceValues ?w2 ''hdmiValue'') = ''-5''\<close>
    by (simp add: with_preference_def toStringS_def)
  have p3: \<open>toStringS (getPreferenceValues ?w3 ''displayportValue'') = ''undefined''\<close>
    by (simp add: mac_host_def toStringS_def)
  have p4: \<open>toStringS (getPreferenceValues ?w4 ''displayportValue'') = ''15''\<close>
    by (simp add: with_preference_def toStringS_def)
  have a: \<open>parseInt (toStringS (getPreferenceValues ?w1 ''hdmiValue'')) = None\<close>
    by (simp add: p1 parseInt_abc)
  have b: \<open>parseInt (toStringS (getPreferenceValues ?w2 ''hdmiValue'')) = Some (- 5)\<close>
    by (simp add: p2 parseInt_minus5)
  have e: \<open>parseInt (toStringS (getPreferenceValues ?w3 ''displayportValue'')) = None\<close>
    by (simp add: p3 parseInt_def isWhiteSpace_def isDigit_def)
  have f: \<open>parseInt (toStringS (getPreferenceValues ?w4 ''displayportValue'')) = Some 15\<close>
    by (simp add: p4 parseInt_15_plain)
  have c: \<open>Command_switch_to_hdmi ?w1 =
       [ShowToast Failure ''Invalid HDMI value'' ''"abc" is not a valid number'']\<close>
    using unparsable_input_code_blocks_dispatch[of ?w1] a by (simp add: p1)
  have d: \<open>\<exists>rest. Command_switch_to_hdmi ?w2 = CloseMainWindow # rest\<close>
    using unparsable_input_code_blocks_dispatch[of ?w2] b by blast
  have g: \<open>Command_switch_to_displayport ?w3 =
       [ShowToast Failure ''Invalid DisplayPort value'' ''"undefined" is not a valid number'']\<close>
    using unparsable_input_code_blocks_dispatch[of ?w3] e by (simp add: p3)
  have h: \<open>\<exists>rest. Command_switch_to_displayport ?w4 = CloseMainWindow # rest\<close>
    using unparsable_input_code_blocks_dispatch[of ?w4] f by blast
  show ?thesis using a b c d e f g h by blast
qed

text \<open>
  C2 as the specification states it fails: the code \<^verbatim>\<open>-5\<close> does not parse as a
  non-negative integer, yet nothing rejects it. The switch-to-HDMI command starts
  \<^verbatim>\<open>m1ddc set input -5\<close>; with \<^verbatim>\<open>-5\<close> as the DisplayPort code the combined validation
  reports success and the toggle command starts m1ddc as well.
\<close>

theorem negative_input_code_counterexample:
  \<open>parseInt ''-5'' = Some (- 5)
   \<and> Command_switch_to_hdmi (with_preference (mac_host ''Apple M2'') ''hdmiValue'' ''-5'') =
       [CloseMainWindow, ExecSync ''m1ddc set input -5'',
        ShowHUD (checkMark @ '' Switched to HDMI (-5)'')]
   \<and> validatePrerequisites_common (with_preference (mac_host ''Apple M2'') ''displayPortValue'' ''-5'')
        ''status'' = Some (JStr ''success'')
   \<and> ExecSync ''"/opt/homebrew/bin/m1ddc" set input -5''
        \<in> set (Command_toggle_input_source
                 (with_preference (mac_host ''Apple M2'') ''displayPortValue'' ''-5''))\<close>
proof -
  let ?w1 = \<open>with_preference (mac_host ''Apple M2'') ''hdmiValue'' ''-5''\<close>
  let ?w2 = \<open>with_preference (mac_host ''Apple M2'') ''displayPortValue'' ''-5''\<close>
  have p1: \<open>getPreferenceValues ?w1 ''hdmiValue'' = Some ''-5''\<close>
    \<open>getPreferenceValues ?w1 ''controlMyMonitorPath'' = Some []\<close>
    \<open>getPreferenceValues ?w1 ''monitorId'' = Some ''Primary''\<close>
    by (simp_all add: with_preference_def mac_host_basics)
  have sw: \<open>switchInput ?w1 v p m = switchInputMacOS ?w1 v\<close> for v p m
    by (rule switchInput_darwin)
       (simp_all add: with_preference_same with_preference_gen mac_host_basics mac_M2_gen)
  have r: \<open>run ?w1 ''m1ddc set input -5'' = Exited 0 [] []\<close>
    by (simp add: with_preference_same mac_host_def sysctl_command_def sysctl_command2_def)
  have m: \<open>switchInputMacOS ?w1 (Some (- 5)) =
             (\<lparr>success = True, message = ''Switched to input -5'', rawOutput = Some []\<rparr>,
              [''m1ddc set input -5''])\<close>
    using r by (simp add: switchInputMacOS_def showNumber_minus5 execSync_def trim_def)
  have c1: \<open>Command_switch_to_hdmi ?w1 =
       [CloseMainWindow, ExecSync ''m1ddc set input -5'',
        ShowHUD (checkMark @ '' Switched to HDMI (-5)'')]\<close>
    by (simp add: Command_switch_to_hdmi_def p1 toStringS_def parseInt_minus5 isNaN_def sw m
        showNumber_minus5)
  have darwin: \<open>os_platform ?w2 = ''darwin''\<close>
    by (simp add: with_preference_same mac_host_basics)
  have gen: \<open>detectAppleSiliconGeneration2 ?w2 \<noteq> Intel\<close>
    by (simp add: with_preference_gen mac_M2_gen2)
  have p2: \<open>getPreferenceValues ?w2 ''m1ddcPath'' = Some ''/opt/homebrew/bin/m1ddc''\<close>
    \<open>getPreferenceValues ?w2 ''os'' = None\<close>
    \<open>getPreferenceValues ?w2 ''displayPortValue'' = Some ''-5''\<close>
    by (simp_all add: with_preference_def mac_host_basics)
  have ex: \<open>existsSync ?w2 ''/opt/homebrew/bin/m1ddc''\<close>
    by (simp add: with_preference_same mac_host_basics)
  have hos: \<open>validateHostPlatform ?w2 ''os'' = Some (JStr ''darwin'')\<close>
    by (rule validateHostPlatform_darwin_os[OF darwin])
  have st: \<open>validatePrerequisites_common ?w2 ''status'' = Some (JStr ''success'')\<close>
    using gen p2(1) ex trim_m1ddc_path hos
    by (simp add: common_status validateHostPlatform_darwin_status[OF darwin]
        validatePreferences_status)
  have \<open>ExecSync (''"'' @ ''/opt/homebrew/bin/m1ddc'' @ ''" set input '' @
             showNumber (parseInt (toStringS (getPreferenceValues ?w2 ''displayPortValue''))))
          \<in> set (Command_toggle_input_source ?w2)\<close>
    by (rule toggle_dispatches_on_mac[OF darwin gen p2(1) _ trim_m1ddc_path ex p2(2)]) simp
  then have c2: \<open>ExecSync ''"/opt/homebrew/bin/m1ddc" set input -5''
        \<in> set (Command_toggle_input_source ?w2)\<close>
    by (simp add: p2(3) toStringS_def parseInt_minus5 showNumber_minus5)
  show ?thesis using parseInt_minus5 c1 st c2 by blast
qed

text \<open>
  C3. On a Mac of generation M1, \<^verbatim>\<open>validateHostPlatform\<close> returns the soft warning (status
  \<^verbatim>\<open>soft-fail\<close>, not \<^verbatim>\<open>failure\<close>) about the built-in HDMI port, and the soft warning does
  not stop the dispatcher: the toggle command runs the dispatcher for any validation whose
  status is \<^verbatim>\<open>soft-fail\<close>, and with the tool present (its path configured, not blank
  and existing) the command starts m1ddc with the configured DisplayPort code. The
  preferences are taken to hold no property named \<^verbatim>\<open>os\<close>, which the spread in common.ts
  would put in the place of the platform's.
\<close>

theorem m1_soft_warning_allows_dispatch:
  assumes \<open>os_platform w = ''darwin''\<close> and \<open>detectAppleSiliconGeneration2 w = M1\<close>
  shows \<open>validateHostPlatform w ''status'' = Some (JStr ''soft-fail'')
       \<and> validateHostPlatform w ''title'' = Some (JStr ''m1ddc does not support M1's built-in HDMI port!'')
       \<and> (\<forall>cv. cv ''status'' = Some (JStr ''soft-fail'') \<longrightarrow>
              (\<exists>cmd. ExecSync cmd \<in> set (Command_toggle_from w cv)))
       \<and> (\<forall>path. getPreferenceValues w ''m1ddcPath'' = Some path \<and> path \<noteq> [] \<and> trim path \<noteq> []
                \<and> existsSync w path \<and> getPreferenceValues w ''os'' = None \<longrightarrow>
              ExecSync (''"'' @ path @ ''" set input '' @
                  showNumber (parseInt (toStringS (getPreferenceValues w ''displayPortValue''))))
                \<in> set (Command_toggle_input_source w))\<close>
proof (intro conjI allI impI)
  show \<open>validateHostPlatform w ''status'' = Some (JStr ''soft-fail'')\<close>
    using assms by (simp add: validateHostPlatform_darwin_status)
  show \<open>validateHostPlatform w ''title'' = Some (JStr ''m1ddc does not support M1's built-in HDMI port!'')\<close>
    using assms by (simp add: validateHostPlatform_darwin add_Toast_title)
next
  fix cv :: jsobj
  assume \<open>cv ''status'' = Some (JStr ''soft-fail'')\<close>
  then have \<open>cv ''status'' \<noteq> Some (JStr ''failure'')\<close> by simp
  then show \<open>\<exists>cmd. ExecSync cmd \<in> set (Command_toggle_from w cv)\<close>
    by (rule toggle_from_dispatches)
next
  fix path
  assume h: \<open>getPreferenceValues w ''m1ddcPath'' = Some path \<and> path \<noteq> [] \<and> trim path \<noteq> []
                \<and> existsSync w path \<and> getPreferenceValues w ''os'' = None\<close>
  have \<open>detectAppleSiliconGeneration2 w \<noteq> Intel\<close> using assms(2) by simp
  then show \<open>ExecSync (''"'' @ path @ ''" set input '' @
                  showNumber (parseInt (toStringS (getPreferenceValues w ''displayPortValue''))))
                \<in> set (Command_toggle_input_source w)\<close>
    using toggle_dispatches_on_mac[OF assms(1), of path] h by simp
qed

text \<open>The Mac whose brand string is \<^verbatim>\<open>Apple M1\<close>: m1ddc is started for input 15.\<close>

theorem m1_soft_warning_allows_dispatch_witness:
  \<open>os_platform (mac_host ''Apple M1'') = ''darwin''
   \<and> detectAppleSiliconGeneration2 (mac_host ''Apple M1'') = M1
   \<and> validateHostPlatform (mac_host ''Apple M1'') ''status'' = Some (JStr ''soft-fail'')
   \<and> ExecSync ''"/opt/homebrew/bin/m1ddc" set input 15''
       \<in> set (Command_toggle_input_source (mac_host ''Apple M1''))\<close>
proof -
  let ?w = \<open>mac_host ''Apple M1''\<close>
  note t = m1_soft_warning_allows_dispatch[OF mac_host_basics(1)[of \<open>''Apple M1''\<close>] mac_M1_gen2]
  have tool: \<open>getPreferenceValues ?w ''m1ddcPath'' = Some ''/opt/homebrew/bin/m1ddc''
      \<and> ''/opt/homebrew/bin/m1ddc'' \<noteq> [] \<and> trim ''/opt/homebrew/bin/m1ddc'' \<noteq> []
      \<and> existsSync ?w ''/opt/homebrew/bin/m1ddc'' \<and> getPreferenceValues ?w ''os'' = None\<close>
    using trim_m1ddc_path by (simp add: mac_host_basics)
  have \<open>ExecSync (''"'' @ ''/opt/homebrew/bin/m1ddc'' @ ''" set input '' @
          showNumber (parseInt (toStringS (getPreferenceValues ?w ''displayPortValue''))))
        \<in> set (Command_toggle_input_source ?w)\<close>
    using t tool by blast
  then have \<open>ExecSync ''"/opt/homebrew/bin/m1ddc" set input 15''
       \<in> set (Command_toggle_input_source ?w)\<close>
    by (simp add: mac_host_basics toStringS_def parseInt_def isWhiteSpace_def isDigit_def
        digitsValue_def showNumber_15)
  then show ?thesis using t mac_host_basics(1)[of \<open>''Apple M1''\<close>] mac_M1_gen2 by blast
qed

text \<open>
  C9. On a Mac of generation M1 where preference validation succeeds, the combined
  validation of common.ts returns the status \<^verbatim>\<open>success\<close> with an empty title and message:
  the spread of the preference validation overwrites the \<^verbatim>\<open>soft-fail\<close> status, title and
  message that \<^verbatim>\<open>validateHostPlatform\<close> produced, so the caller does not observe the soft
  warning.
\<close>

theorem m1_soft_warning_overwritten:
  assumes \<open>os_platform w = ''darwin''\<close> and \<open>detectAppleSiliconGeneration2 w = M1\<close>
    and \<open>validatePreferences w (validateHostPlatform w) ''status'' = Some (JStr ''success'')\<close>
  shows \<open>validateHostPlatform w ''status'' = Some (JStr ''soft-fail'')
       \<and> validatePrerequisites_common w ''status'' = Some (JStr ''success'')
       \<and> validatePrerequisites_common w ''title'' = Some (JStr [])
       \<and> validatePrerequisites_common w ''message'' = Some (JStr [])
       \<and> validatePrerequisites_common w ''status'' \<noteq> Some (JStr ''soft-fail'')\<close>
proof -
  let ?hp = \<open>validateHostPlatform w\<close>
  have hs: \<open>?hp ''status'' = Some (JStr ''soft-fail'')\<close>
    using assms(1,2) by (simp add: validateHostPlatform_darwin_status)
  obtain path where
    \<open>(if ?hp ''os'' = Some (JStr ''darwin'') then getPreferenceValues w ''m1ddcPath''
      else getPreferenceValues w ''controlMyMonitorPath'') = Some path\<close>
    \<open>path \<noteq> []\<close> \<open>trim path \<noteq> []\<close> \<open>existsSync w path\<close>
    using assms(3) unfolding validatePreferences_status
    by (auto split: option.splits if_splits)
  then have vp: \<open>validatePreferences w ?hp =
      objPreferences (getPreferenceValues w) ++ ToastResult ''success'' [] []\<close>
    using validatePreferences_success[of ?hp w path] by (simp add: GenericSuccess_def)
  have cv: \<open>validatePrerequisites_common w =
      ?hp ++ objPreferences (getPreferenceValues w) ++ ToastResult ''success'' [] []\<close>
    using hs vp by (simp add: validatePrerequisites_common_def Let_def)
  show ?thesis
    using hs by (simp add: cv add_Toast_status add_Toast_title add_Toast_message)
qed

text \<open>The Mac whose brand string is \<^verbatim>\<open>Apple M1\<close>, with m1ddc configured and present.\<close>

theorem m1_soft_warning_overwritten_witness:
  \<open>os_platform (mac_host ''Apple M1'') = ''darwin''
   \<and> detectAppleSiliconGeneration2 (mac_host ''Apple M1'') = M1
   \<and> validatePreferences (mac_host ''Apple M1'') (validateHostPlatform (mac_host ''Apple M1''))
        ''status'' = Some (JStr ''success'')
   \<and> validateHostPlatform (mac_host ''Apple M1'') ''status'' = Some (JStr ''soft-fail'')
   \<and> validatePrerequisites_common (mac_host ''Apple M1'') ''status'' = Some (JStr ''success'')\<close>
proof -
  let ?w = \<open>mac_host ''Apple M1''\<close>
  have darwin: \<open>os_platform ?w = ''darwin''\<close> by (rule mac_host_basics)
  have hos: \<open>validateHostPlatform ?w ''os'' = Some (JStr ''darwin'')\<close>
    by (rule validateHostPlatform_darwin_os[OF darwin])
  have vp: \<open>validatePreferences ?w (validateHostPlatform ?w) ''status'' = Some (JStr ''success'')\<close>
    using hos trim_m1ddc_path by (simp add: validatePreferences_status mac_host_basics)
  show ?thesis
    using m1_soft_warning_overwritten[OF darwin mac_M1_gen2 vp] darwin mac_M1_gen2 vp by blast
qed

text \<open>
  C10. On macOS an unknown silicon generation counts as Apple Silicon:
  \<^verbatim>\<open>isAppleSilicon\<close> is defined as generation \<open>\<noteq>\<close> Intel in both copies of
  \<^verbatim>\<open>detectPlatform\<close>. As far as the chip is concerned validation blocks only on a detected
  Intel chip: \<^verbatim>\<open>validateHostPlatform\<close> fails exactly for Intel, and
  \<^verbatim>\<open>validatePrerequisites\<close> of platform.ts fails exactly for Intel or a missing m1ddc.
  With the generation unknown, validation reports ready and the dispatch goes ahead, in
  the first \<^verbatim>\<open>switchInput\<close> and in the toggle command.
\<close>

theorem unknown_generation_counts_as_apple_silicon:
  assumes \<open>os_platform w = ''darwin''\<close>
  shows \<open>isAppleSilicon (detectPlatform w) = (appleChipGen (detectPlatform w) \<noteq> Intel)
       \<and> isAppleSilicon (detectPlatform2 w) = (appleChipGen (detectPlatform2 w) \<noteq> Intel)
       \<and> (validateHostPlatform w ''status'' = Some (JStr ''failure'') \<longleftrightarrow>
            appleChipGen (detectPlatform2 w) = Intel)
       \<and> (validatePrerequisites w p \<noteq> None \<longleftrightarrow>
            appleChipGen (detectPlatform w) = Intel \<or> \<not> isM1ddcInstalled w)
       \<and> (appleChipGen (detectPlatform2 w) = Unknown \<longrightarrow>
            isAppleSilicon (detectPlatform2 w)
            \<and> validateHostPlatform w ''status'' = Some (JStr ''success''))
       \<and> (appleChipGen (detectPlatform w) = Unknown \<and> isM1ddcInstalled w \<longrightarrow>
            isAppleSilicon (detectPlatform w)
            \<and> validatePrerequisites w p = None
            \<and> snd (switchInput w v p m) = [''m1ddc set input '' @ showNumber v])
       \<and> (\<forall>path. appleChipGen (detectPlatform2 w) = Unknown
                \<and> getPreferenceValues w ''m1ddcPath'' = Some path \<and> path \<noteq> [] \<and> trim path \<noteq> []
                \<and> existsSync w path \<and> getPreferenceValues w ''os'' = None \<longrightarrow>
              ExecSync (''"'' @ path @ ''" set input '' @
                  showNumber (parseInt (toStringS (getPreferenceValues w ''displayPortValue''))))
                \<in> set (Command_toggle_input_source w))\<close>
proof (intro conjI allI impI)
  show \<open>isAppleSilicon (detectPlatform w) = (appleChipGen (detectPlatform w) \<noteq> Intel)\<close>
    by (simp add: detectPlatform_darwin[OF assms])
  show \<open>isAppleSilicon (detectPlatform2 w) = (appleChipGen (detectPlatform2 w) \<noteq> Intel)\<close>
    by (simp add: detectPlatform2_darwin[OF assms])
  show \<open>validateHostPlatform w ''status'' = Some (JStr ''failure'') \<longleftrightarrow>
            appleChipGen (detectPlatform2 w) = Intel\<close>
    by (simp add: validateHostPlatform_darwin_status[OF assms] detectPlatform2_darwin[OF assms])
  show \<open>validatePrerequisites w p \<noteq> None \<longleftrightarrow>
            appleChipGen (detectPlatform w) = Intel \<or> \<not> isM1ddcInstalled w\<close>
    by (simp add: validatePrerequisites_darwin[OF assms] detectPlatform_darwin[OF assms])
next
  assume \<open>appleChipGen (detectPlatform2 w) = Unknown\<close>
  then show \<open>isAppleSilicon (detectPlatform2 w)\<close>
    \<open>validateHostPlatform w ''status'' = Some (JStr ''success'')\<close>
    by (simp_all add: validateHostPlatform_darwin_status[OF assms] detectPlatform2_darwin[OF assms])
next
  assume h: \<open>appleChipGen (detectPlatform w) = Unknown \<and> isM1ddcInstalled w\<close>
  then have g: \<open>detectAppleSiliconGeneration w = Unknown\<close>
    by (simp add: detectPlatform_darwin[OF assms])
  show \<open>isAppleSilicon (detectPlatform w)\<close>
    using g by (simp add: detectPlatform_darwin[OF assms])
  show \<open>validatePrerequisites w p = None\<close>
    using g h by (simp add: validatePrerequisites_darwin[OF assms])
  show \<open>snd (switchInput w v p m) = [''m1ddc set input '' @ showNumber v]\<close>
    using g h by (simp add: switchInput_darwin[OF assms] switchInputMacOS_cmds)
next
  fix path
  assume h: \<open>appleChipGen (detectPlatform2 w) = Unknown
                \<and> getPreferenceValues w ''m1ddcPath'' = Some path \<and> path \<noteq> [] \<and> trim path \<noteq> []
                \<and> existsSync w path \<and> getPreferenceValues w ''os'' = None\<close>
  then have \<open>detectAppleSiliconGeneration2 w \<noteq> Intel\<close>
    by (simp add: detectPlatform2_darwin[OF assms])
  then show \<open>ExecSync (''"'' @ path @ ''" set input '' @
                  showNumber (parseInt (toStringS (getPreferenceValues w ''displayPortValue''))))
                \<in> set (Command_toggle_input_source w)\<close>
    using toggle_dispatches_on_mac[OF assms, of path] h by simp
qed

text \<open>
  The Mac on which \<^verbatim>\<open>sysctl\<close> times out: the generation is unknown, the host counts as
  Apple Silicon, both validations report ready and both dispatchers start m1ddc.
\<close>

theorem unknown_generation_counts_as_apple_silicon_witness:
  \<open>os_platform mac_host_no_sysctl = ''darwin''
   \<and> appleChipGen (detectPlatform mac_host_no_sysctl) = Unknown
   \<and> appleChipGen (detectPlatform2 mac_host_no_sysctl) = Unknown
   \<and> isAppleSilicon (detectPlatform mac_host_no_sysctl)
   \<and> isAppleSilicon (detectPlatform2 mac_host_no_sysctl)
   \<and> validateHostPlatform mac_host_no_sysctl ''status'' = Some (JStr ''success'')
   \<and> validatePrerequisites mac_host_no_sysctl None = None
   \<and> snd (switchInput mac_host_no_sysctl (Some 17) None ''Primary'') = [''m1ddc set input 17'']
   \<and> ExecSync ''"/opt/homebrew/bin/m1ddc" set input 15''
       \<in> set (Command_toggle_input_source mac_host_no_sysctl)\<close>
proof -
  let ?w = \<open>mac_host_no_sysctl\<close>
  have darwin: \<open>os_platform ?w = ''darwin''\<close> by (rule mac_host_no_sysctl_basics)
  note t = unknown_generation_counts_as_apple_silicon[OF darwin, of None \<open>Some 17\<close> \<open>''Primary''\<close>]
  have g1: \<open>appleChipGen (detectPlatform ?w) = Unknown\<close>
    by (simp add: detectPlatform_darwin[OF darwin] mac_host_no_sysctl_gen)
  have g2: \<open>appleChipGen (detectPlatform2 ?w) = Unknown\<close>
    by (simp add: detectPlatform2_darwin[OF darwin] mac_host_no_sysctl_gen)
  have inst: \<open>isM1ddcInstalled ?w\<close> by (rule mac_host_no_sysctl_basics)
  have a: \<open>isAppleSilicon (detectPlatform2 ?w)
      \<and> validateHostPlatform ?w ''status'' = Some (JStr ''success'')\<close>
    using t g2 by blast
  have b: \<open>isAppleSilicon (detectPlatform ?w) \<and> validatePrerequisites ?w None = None
      \<and> snd (switchInput ?w (Some 17) None ''Primary'') = [''m1ddc set input '' @ showNumber (Some 17)]\<close>
    using t g1 inst by blast
  have tool: \<open>appleChipGen (detectPlatform2 ?w) = Unknown
      \<and> getPreferenceValues ?w ''m1ddcPath'' = Some ''/opt/homebrew/bin/m1ddc''
      \<and> ''/opt/homebrew/bin/m1ddc'' \<noteq> [] \<and> trim ''/opt/homebrew/bin/m1ddc'' \<noteq> []
      \<and> existsSync ?w ''/opt/homebrew/bin/m1ddc'' \<and> getPreferenceValues ?w ''os'' = None\<close>
    using g2 trim_m1ddc_path by (simp add: mac_host_no_sysctl_basics)
  have \<open>ExecSync (''"'' @ ''/opt/homebrew/bin/m1ddc'' @ ''" set input '' @
          showNumber (parseInt (toStringS (getPreferenceValues ?w ''displayPortValue''))))
        \<in> set (Command_toggle_input_source ?w)\<close>
    using t tool by blast
  then have c: \<open>ExecSync ''"/opt/homebrew/bin/m1ddc" set input 15''
       \<in> set (Command_toggle_input_source ?w)\<close>
    by (simp add: mac_host_no_sysctl_basics toStringS_def parseInt_15_plain showNumber_15)
  have d: \<open>snd (switchInput ?w (Some 17) None ''Primary'') = [''m1ddc set input 17'']\<close>
    using b by (simp add: showNumber_17)
  show ?thesis using darwin g1 g2 a b c d by blast
qed

end
